theory Spec2Isabelle
  imports Complex_Main
begin

section \<open>The execution helpers of the exercise notebooks\<close>

text \<open>
  The notebooks \<open>w3_01.ipynb\<close> and \<open>IBMQ_setup.ipynb\<close> define the same four helpers:
  \<open>show_results\<close>, \<open>execute_locally\<close>, \<open>execute_remotely\<close> and \<open>new_circuit\<close>. The first
  three are modelled here; \<open>new_circuit\<close> only builds two registers and a circuit. The
  helpers call the quantum SDK and Matplotlib. Objects of these libraries are kept by their
  printed form; a count dictionary is an association list in insertion order.
\<close>

type_synonym circuit = string
type_synonym backend = string
type_synonym result = string
type_synonym counts = "(string \<times> nat) list"

text \<open>
  A Python exception that reaches the model. \<open>ImportError\<close> stands for an instance of that
  class or of a subclass, which is what \<open>except ImportError\<close> matches; \<open>OtherError\<close> carries
  the class name and the message of any other exception.
\<close>

datatype exn = ImportError string | NameError string | OtherError string string

text \<open>The status object of a remote job; the helpers read only its \<open>name\<close>.\<close>

datatype job_status = JobStatus (name: string)

datatype pyval =
    PStr string
  | PBackend backend
  | PStatus job_status
  | PResult result
  | PCounts counts

text \<open>
  The visible actions of the helpers, in the order they are called: \<open>print\<close> with its
  arguments, \<open>time.sleep\<close> with its seconds, the circuit drawer and the three Matplotlib calls
  of \<open>show_results\<close>.
\<close>

datatype event =
    Print "pyval list"
  | Sleep nat
  | Draw circuit
  | PltBar "nat list" "nat list" string
  | PltXticks "nat list" "string list"
  | PltShow

text \<open>
  A submitted job: \<open>status_at k\<close> is what the \<open>k\<close>-th call of \<open>job.status()\<close> does (it returns
  a status or raises), \<open>job_result\<close> is what \<open>job.result()\<close> does.
\<close>

record job =
  status_at :: "nat \<Rightarrow> exn + job_status"
  job_result :: "exn + result"

text \<open>
  The libraries the helpers call. Every call may raise; \<open>draw_raises\<close> and \<open>plt_raises\<close> say
  whether a call made for its effect raises. \<open>print\<close> and \<open>time.sleep\<close> are builtins called
  with valid arguments and always return. The last argument of \<open>execute\<close> is the pair
  \<open>(shots, max_credits)\<close> when the call passes them.
\<close>

record sdk =
  draw_raises :: "circuit \<Rightarrow> exn option"
  plt_raises :: "event \<Rightarrow> exn option"
  aer_get_backend :: "string \<Rightarrow> exn + backend"
  ibmq_backends :: "bool \<Rightarrow> exn + backend list"
  least_busy :: "backend list \<Rightarrow> exn + backend"
  execute :: "circuit \<Rightarrow> backend \<Rightarrow> (nat \<times> nat) option \<Rightarrow> exn + job"
  get_counts :: "result \<Rightarrow> circuit \<Rightarrow> exn + counts"

text \<open>
  A helper returns the exception it lets through to its caller, if any, and the actions it
  performed. A call that raises is still in the list: it was made.
\<close>

type_synonym outcome = "exn option \<times> event list"

subsection \<open>\<open>show_results\<close>\<close>

text \<open>
  \<^verbatim>\<open>
  def show_results(D):
      plt.bar(range(len(D)), list(D.values()), align='center')
      plt.xticks(range(len(D)), list(D.keys()))
      plt.show()
  \<close>
\<close>

definition show_results :: "sdk \<Rightarrow> counts \<Rightarrow> outcome" where
  "show_results lib D =
     (let bar = PltBar [0..<length D] (map snd D) ''center'';
          xticks = PltXticks [0..<length D] (map fst D)
      in case plt_raises lib bar of
           Some e \<Rightarrow> (Some e, [bar])
         | None \<Rightarrow>
             (case plt_raises lib xticks of
                Some e \<Rightarrow> (Some e, [bar, xticks])
              | None \<Rightarrow> (plt_raises lib PltShow, [bar, xticks, PltShow])))"

subsection \<open>\<open>execute_locally\<close>\<close>

text \<open>
  \<^verbatim>\<open>
  def execute_locally(qc, draw_circuit=False):
      backend_sim = Aer.get_backend('qasm_simulator')
      job_sim = execute(qc, backend_sim)
      result_sim = job_sim.result()
      result_counts = result_sim.get_counts(qc)
      print("simulation: ", result_sim, result_counts)
      if draw_circuit: # draw the circuit
          draw(qc)
      else: # or show the results
          show_results(result_counts)
  \<close>
  The first four calls are gathered in \<open>simulate\<close>.
\<close>

definition simulate :: "sdk \<Rightarrow> circuit \<Rightarrow> exn + (result \<times> counts)" where
  "simulate lib qc =
     (case aer_get_backend lib ''qasm_simulator'' of
        Inl e \<Rightarrow> Inl e
      | Inr backend_sim \<Rightarrow>
          (case execute lib qc backend_sim None of
             Inl e \<Rightarrow> Inl e
           | Inr job_sim \<Rightarrow>
               (case job_result job_sim of
                  Inl e \<Rightarrow> Inl e
                | Inr result_sim \<Rightarrow>
                    (case get_counts lib result_sim qc of
                       Inl e \<Rightarrow> Inl e
                     | Inr result_counts \<Rightarrow> Inr (result_sim, result_counts)))))"

definition execute_locally :: "sdk \<Rightarrow> circuit \<Rightarrow> bool \<Rightarrow> outcome" where
  "execute_locally lib qc draw_circuit =
     (case simulate lib qc of
        Inl e \<Rightarrow> (Some e, [])
      | Inr (result_sim, result_counts) \<Rightarrow>
          (let line = Print [PStr ''simulation: '', PResult result_sim, PCounts result_counts]
           in if draw_circuit then (draw_raises lib qc, [line, Draw qc])
              else (case show_results lib result_counts of
                      (x, acts) \<Rightarrow> (x, line # acts))))"

text \<open>Whether an action is one of the Matplotlib calls of \<open>show_results\<close>.\<close>

fun is_plot :: "event \<Rightarrow> bool" where
  "is_plot (PltBar _ _ _) = True"
| "is_plot (PltXticks _ _) = True"
| "is_plot PltShow = True"
| "is_plot _ = False"

subsection \<open>\<open>execute_remotely\<close>\<close>

text \<open>
  \<^verbatim>\<open>
  def execute_remotely(qc, draw_circuit=False):
      if draw_circuit: # draw the circuit
          draw(qc)
      try:
          least_busy_device = least_busy(IBMQ.backends(simulator=False))
          print("Running on current least busy device: ", least_busy_device)
          job_exp = execute(qc, backend=least_busy_device, shots=1024, max_credits=10)
          lapse, interval = 0, 10
          while job_exp.status().name != 'DONE':
              print('Status @ {} seconds'.format(interval * lapse))
              print(job_exp.status())
              time.sleep(interval)
              lapse += 1
          print(job_exp.status())
          exp_result = job_exp.result()
          result_counts = exp_result.get_counts(qc)
          print("experiment: ", exp_result, result_counts)
          if not draw_circuit: # show the results
              show_results(result_counts)
      except:
          print("All devices are currently unavailable.")
  \<close>
\<close>

text \<open>The decimal digits of a number, as \<open>'{}'.format\<close> writes a non-negative integer.\<close>

fun str_nat :: "nat \<Rightarrow> string" where
  "str_nat n = (if n < 10 then [''0123456789'' ! n]
                else str_nat (n div 10) @ [''0123456789'' ! (n mod 10)])"

declare str_nat.simps [simp del]

definition interval :: nat where
  "interval = 10"

definition status_line :: "nat \<Rightarrow> event" where
  "status_line l = Print [PStr (''Status @ '' @ str_nat (interval * l) @ '' seconds'')]"

text \<open>
  The state of the wait loop: how many times \<open>job_exp.status()\<close> has been called, the
  counter \<open>lapse\<close>, and the actions performed inside the \<open>try\<close> block so far.
\<close>

record poll_state =
  status_calls :: nat
  lapse :: nat
  printed :: "event list"

text \<open>
  The \<open>while\<close> loop. It has no bound, so it is a partial function: \<open>None\<close> means that the
  loop never ends. Each round calls \<open>status()\<close> twice, once in the condition and once in the
  second \<open>print\<close>. The result is the exception that left the loop, if any, and the state.
\<close>

partial_function (option) wait_loop :: "job \<Rightarrow> poll_state \<Rightarrow> (exn option \<times> poll_state) option" where
  "wait_loop job_exp s =
     (case status_at job_exp (status_calls s) of
        Inl e \<Rightarrow> Some (Some e, s\<lparr>status_calls := status_calls s + 1\<rparr>)
      | Inr st \<Rightarrow>
          if name st \<noteq> ''DONE'' then
            (case status_at job_exp (status_calls s + 1) of
               Inl e \<Rightarrow>
                 Some (Some e, s\<lparr>status_calls := status_calls s + 2,
                                  printed := printed s @ [status_line (lapse s)]\<rparr>)
             | Inr st' \<Rightarrow>
                 wait_loop job_exp
                   \<lparr>status_calls = status_calls s + 2,
                    lapse = lapse s + 1,
                    printed = printed s @
                      [status_line (lapse s), Print [PStatus st'], Sleep interval]\<rparr>)
          else Some (None, s\<lparr>status_calls := status_calls s + 1\<rparr>))"

declare wait_loop.simps [code]

text \<open>Whether an action is a call of \<open>time.sleep\<close>.\<close>

fun is_sleep :: "event \<Rightarrow> bool" where
  "is_sleep (Sleep _) = True"
| "is_sleep _ = False"

text \<open>The statements of the \<open>try\<close> block after the loop.\<close>

definition after_wait :: "sdk \<Rightarrow> circuit \<Rightarrow> bool \<Rightarrow> job \<Rightarrow> poll_state \<Rightarrow> outcome" where
  "after_wait lib qc draw_circuit job_exp s =
     (case status_at job_exp (status_calls s) of
        Inl e \<Rightarrow> (Some e, printed s)
      | Inr st \<Rightarrow>
          (case job_result job_exp of
             Inl e \<Rightarrow> (Some e, printed s @ [Print [PStatus st]])
           | Inr exp_result \<Rightarrow>
               (case get_counts lib exp_result qc of
                  Inl e \<Rightarrow> (Some e, printed s @ [Print [PStatus st]])
                | Inr result_counts \<Rightarrow>
                    (let acts = printed s @
                           [Print [PStatus st],
                            Print [PStr ''experiment: '', PResult exp_result, PCounts result_counts]]
                     in if \<not> draw_circuit
                        then (case show_results lib result_counts of (x, shown) \<Rightarrow> (x, acts @ shown))
                        else (None, acts)))))"

text \<open>The \<open>try\<close> block: the exception it raises, if any, and its actions.\<close>

definition try_block :: "sdk \<Rightarrow> circuit \<Rightarrow> bool \<Rightarrow> outcome option" where
  "try_block lib qc draw_circuit =
     (case ibmq_backends lib False of
        Inl e \<Rightarrow> Some (Some e, [])
      | Inr devices \<Rightarrow>
          (case least_busy lib devices of
             Inl e \<Rightarrow> Some (Some e, [])
           | Inr least_busy_device \<Rightarrow>
               (let line = Print [PStr ''Running on current least busy device: '',
                                  PBackend least_busy_device]
                in case execute lib qc least_busy_device (Some (1024, 10)) of
                     Inl e \<Rightarrow> Some (Some e, [line])
                   | Inr job_exp \<Rightarrow>
                       (case wait_loop job_exp \<lparr>status_calls = 0, lapse = 0, printed = [line]\<rparr> of
                          None \<Rightarrow> None
                        | Some (Some e, s) \<Rightarrow> Some (Some e, printed s)
                        | Some (None, s) \<Rightarrow> Some (after_wait lib qc draw_circuit job_exp s)))))"

definition unavailable :: event where
  "unavailable = Print [PStr ''All devices are currently unavailable.'']"

text \<open>
  The whole helper. The call of \<open>draw\<close> stands before the \<open>try\<close>; the bare \<open>except\<close>
  catches every exception of the block.
\<close>

definition execute_remotely :: "sdk \<Rightarrow> circuit \<Rightarrow> bool \<Rightarrow> outcome option" where
  "execute_remotely lib qc draw_circuit =
     (let drawn = (if draw_circuit then [Draw qc] else [])
      in case (if draw_circuit then draw_raises lib qc else None) of
           Some e \<Rightarrow> Some (Some e, drawn)
         | None \<Rightarrow>
             (case try_block lib qc draw_circuit of
                None \<Rightarrow> None
              | Some (None, acts) \<Rightarrow> Some (None, drawn @ acts)
              | Some (Some e, acts) \<Rightarrow> Some (None, drawn @ acts @ [unavailable])))"

section \<open>The data-loading helper of the classifier notebook\<close>

text \<open>
  \<^verbatim>\<open>
  def wine(training_size, test_size, n_features, plot_data=False):
      """ returns wine dataset """
      data, target = load_wine(return_X_y=True)
      sample_train, sample_test, label_train, label_test = train_test_split(
          data, target, test_size=test_size, random_state=42)

      std_scale = StandardScaler().fit(sample_train)
      sample_train = std_scale.transform(sample_train)
      sample_test = std_scale.transform(sample_test)

      pca = PCA(n_components=n_features).fit(sample_train)
      sample_train = pca.transform(sample_train)
      sample_test = pca.transform(sample_test)

      samples = np.append(sample_train, sample_test, axis=0)
      minmax_scale = MinMaxScaler(feature_range=(-1, 1)).fit(samples)
      sample_train = minmax_scale.transform(sample_train)
      sample_test = minmax_scale.transform(sample_test)

      sample_train = sample_train[:training_size, :]
      label_train = label_train[:training_size]
      sample_test = sample_test[:training_size, :]
      label_test = label_test[:training_size]

      if plot_data:
          try:
              import matplotlib.pyplot as plt
          except ImportError:
              raise NameError('Matplotlib not installed. Please install it before plotting')
          for k in range(0, 3):
              plt.scatter(sample_train[label_train == k, 0][:training_size],
                          sample_train[label_train == k, 1][:training_size])

          plt.title("PCA dim. reduced Wine dataset")
          plt.show()

      return sample_train, label_train, sample_test, label_test
  \<close>
  A sample array is its number of columns and the list of its rows, each of that many
  entries: the number of columns belongs to the shape of the array also when it has no
  rows. A label array is the list of its class numbers.
\<close>

datatype samples = Samples (n_columns: nat) (sample_rows: "real list list")

type_synonym labels = "nat list"

text \<open>A fitted scaler or PCA, by what its \<open>transform\<close> does.\<close>

type_synonym transformer = "samples \<Rightarrow> exn + samples"

datatype plot_event =
    PltScatter "real list" "real list"
  | PltTitle string
  | PltShowFigure

text \<open>
  What \<open>wine\<close> calls in scikit-learn and Matplotlib. \<open>train_test_split\<close> gets the data, the
  labels, \<open>test_size\<close> and \<open>random_state\<close>; \<open>pca_fit\<close> gets \<open>n_components\<close> and the
  training samples; \<open>minmax_scaler_fit\<close> gets the feature range and the samples.
  \<open>import_pyplot\<close> is the exception of the \<open>import\<close> statement, if it raises.
\<close>

record sklearn =
  load_wine :: "exn + (samples \<times> labels)"
  train_test_split :: "samples \<Rightarrow> labels \<Rightarrow> int \<Rightarrow> nat \<Rightarrow> exn + (samples \<times> samples \<times> labels \<times> labels)"
  standard_scaler_fit :: "samples \<Rightarrow> exn + transformer"
  pca_fit :: "int \<Rightarrow> samples \<Rightarrow> exn + transformer"
  minmax_scaler_fit :: "int \<times> int \<Rightarrow> samples \<Rightarrow> exn + transformer"
  import_pyplot :: "exn option"
  pyplot_raises :: "plot_event \<Rightarrow> exn option"

definition bind_exn :: "exn + 'a \<Rightarrow> ('a \<Rightarrow> exn + 'b) \<Rightarrow> exn + 'b" where
  "bind_exn m f = (case m of Inl e \<Rightarrow> Inl e | Inr x \<Rightarrow> f x)"

text \<open>
  The slice \<open>xs[:n]\<close> of Python: the first \<open>n\<close> elements, and for a negative \<open>n\<close> all but
  the last \<open>-n\<close>.
\<close>

definition slice_to :: "int \<Rightarrow> 'a list \<Rightarrow> 'a list" where
  "slice_to n xs = (if 0 \<le> n then take (nat n) xs else take (length xs - nat (- n)) xs)"

text \<open>The slice \<open>a[:n, :]\<close> of a sample array: the rows \<open>[:n]\<close>, all columns.\<close>

definition slice_rows :: "int \<Rightarrow> samples \<Rightarrow> samples" where
  "slice_rows n a = Samples (n_columns a) (slice_to n (sample_rows a))"

text \<open>
  \<open>np.append(a, b, axis=0)\<close>: the rows of \<open>a\<close>, then those of \<open>b\<close>. NumPy raises
  \<open>ValueError\<close> when the two arrays differ in their number of columns.
\<close>

definition np_append :: "samples \<Rightarrow> samples \<Rightarrow> exn + samples" where
  "np_append a b =
     (if n_columns a = n_columns b then Inr (Samples (n_columns a) (sample_rows a @ sample_rows b))
      else Inl (OtherError ''ValueError'' ''all the input array dimensions must match''))"

text \<open>The statements of \<open>wine\<close> before the slices: load, split, scale, project, rescale.\<close>

definition prepare :: "sklearn \<Rightarrow> int \<Rightarrow> int \<Rightarrow> exn + (samples \<times> samples \<times> labels \<times> labels)" where
  "prepare lib test_size n_features =
     bind_exn (load_wine lib) (\<lambda>(data, target).
     bind_exn (train_test_split lib data target test_size 42)
       (\<lambda>(sample_train, sample_test, label_train, label_test).
     bind_exn (standard_scaler_fit lib sample_train) (\<lambda>std_scale.
     bind_exn (std_scale sample_train) (\<lambda>sample_train.
     bind_exn (std_scale sample_test) (\<lambda>sample_test.
     bind_exn (pca_fit lib n_features sample_train) (\<lambda>pca.
     bind_exn (pca sample_train) (\<lambda>sample_train.
     bind_exn (pca sample_test) (\<lambda>sample_test.
     bind_exn (np_append sample_train sample_test) (\<lambda>samples.
     bind_exn (minmax_scaler_fit lib (- 1, 1) samples) (\<lambda>minmax_scale.
     bind_exn (minmax_scale sample_train) (\<lambda>sample_train.
     bind_exn (minmax_scale sample_test) (\<lambda>sample_test.
     Inr (sample_train, sample_test, label_train, label_test)))))))))))))"

text \<open>
  \<open>a[label == k, j]\<close>: column \<open>j\<close> of the rows whose label is \<open>k\<close>. NumPy raises
  \<open>IndexError\<close> when the mask and the array differ in length, and when the array has no
  column \<open>j\<close>, whether or not a row is selected.
\<close>

definition masked_column :: "samples \<Rightarrow> labels \<Rightarrow> nat \<Rightarrow> nat \<Rightarrow> exn + real list" where
  "masked_column a label k j =
     (if length label \<noteq> length (sample_rows a)
        then Inl (OtherError ''IndexError'' ''boolean index did not match'')
      else if \<not> j < n_columns a
        then Inl (OtherError ''IndexError'' ''index is out of bounds for axis 1'')
      else Inr (map (\<lambda>(row, l). row ! j) (filter (\<lambda>(row, l). l = k) (zip (sample_rows a) label))))"

text \<open>The \<open>for\<close> loop over the classes, then the title and the figure.\<close>

fun scatter_classes :: "sklearn \<Rightarrow> samples \<Rightarrow> labels \<Rightarrow> int \<Rightarrow> nat list \<Rightarrow> exn option \<times> plot_event list" where
  "scatter_classes lib sample_train label_train training_size [] =
     (let title = PltTitle ''PCA dim. reduced Wine dataset''
      in case pyplot_raises lib title of
           Some e \<Rightarrow> (Some e, [title])
         | None \<Rightarrow> (pyplot_raises lib PltShowFigure, [title, PltShowFigure]))"
| "scatter_classes lib sample_train label_train training_size (k # ks) =
     (case masked_column sample_train label_train k 0 of
        Inl e \<Rightarrow> (Some e, [])
      | Inr xs \<Rightarrow>
          (case masked_column sample_train label_train k 1 of
             Inl e \<Rightarrow> (Some e, [])
           | Inr ys \<Rightarrow>
               (let scatter = PltScatter (slice_to training_size xs) (slice_to training_size ys)
                in case pyplot_raises lib scatter of
                     Some e \<Rightarrow> (Some e, [scatter])
                   | None \<Rightarrow>
                       (case scatter_classes lib sample_train label_train training_size ks of
                          (x, acts) \<Rightarrow> (x, scatter # acts)))))"

definition wine :: "sklearn \<Rightarrow> int \<Rightarrow> int \<Rightarrow> int \<Rightarrow> bool
    \<Rightarrow> (exn + (samples \<times> labels \<times> samples \<times> labels)) \<times> plot_event list" where
  "wine lib training_size test_size n_features plot_data =
     (case prepare lib test_size n_features of
        Inl e \<Rightarrow> (Inl e, [])
      | Inr (train_all, test_all, label_train_all, label_test_all) \<Rightarrow>
          (let sample_train = slice_rows training_size train_all;
               label_train = slice_to training_size label_train_all;
               sample_test = slice_rows training_size test_all;
               label_test = slice_to training_size label_test_all;
               returned = (sample_train, label_train, sample_test, label_test)
           in if plot_data then
                (case import_pyplot lib of
                   Some (ImportError m) \<Rightarrow>
                     (Inl (NameError ''Matplotlib not installed. Please install it before plotting''), [])
                 | Some e \<Rightarrow> (Inl e, [])
                 | None \<Rightarrow>
                     (case scatter_classes lib sample_train label_train training_size [0, 1, 2] of
                        (Some e, acts) \<Rightarrow> (Inl e, acts)
                      | (None, acts) \<Rightarrow> (Inr returned, acts)))
              else (Inr returned, [])))"

section \<open>The tomography cells\<close>

text \<open>
  The tomography notebook computes with NumPy arrays of complex numbers. A two-dimensional
  array is the list of its rows, a one-dimensional array a list. The entries are exact
  complex numbers: the model does not round. An operation that NumPy refuses (shapes that
  do not fit, a singular matrix) gives \<open>None\<close>.
\<close>

type_synonym vector = "complex list"
type_synonym matrix = "complex list list"

definition ncols :: "matrix \<Rightarrow> nat" where
  "ncols A = (case A of [] \<Rightarrow> 0 | row # _ \<Rightarrow> length row)"

definition dot :: "vector \<Rightarrow> vector \<Rightarrow> complex" where
  "dot u v = sum_list (map2 (*) u v)"

text \<open>\<open>A @ B\<close> for two-dimensional arrays and \<open>A @ v\<close> for a matrix and a vector.\<close>

definition matmul :: "matrix \<Rightarrow> matrix \<Rightarrow> matrix" where
  "matmul A B = map (\<lambda>row. map (dot row) (transpose B)) A"

definition np_matmul :: "matrix \<Rightarrow> matrix \<Rightarrow> matrix option" where
  "np_matmul A B =
     (if list_all (\<lambda>row. length row = length B) A \<and> list_all (\<lambda>row. length row = ncols B) B
      then Some (matmul A B) else None)"

definition matvec :: "matrix \<Rightarrow> vector \<Rightarrow> vector" where
  "matvec A v = map (\<lambda>row. dot row v) A"

definition np_matvec :: "matrix \<Rightarrow> vector \<Rightarrow> vector option" where
  "np_matvec A v = (if list_all (\<lambda>row. length row = length v) A then Some (matvec A v) else None)"

text \<open>\<open>np.conj(A).T\<close>, \<open>c * A\<close>, \<open>np.trace(A)\<close>, \<open>A.flatten()\<close>.\<close>

definition conj_T :: "matrix \<Rightarrow> matrix" where
  "conj_T A = transpose (map (map cnj) A)"

definition scale :: "complex \<Rightarrow> matrix \<Rightarrow> matrix" where
  "scale c A = map (map ((*) c)) A"

definition np_trace :: "matrix \<Rightarrow> complex" where
  "np_trace A = sum_list (map (\<lambda>i. A ! i ! i) [0..<min (length A) (ncols A)])"

definition flatten :: "matrix \<Rightarrow> vector" where
  "flatten A = concat A"

text \<open>\<open>np.kron(A, B)\<close> and \<open>np.reshape(v, (r, c))\<close>.\<close>

definition kron :: "matrix \<Rightarrow> matrix \<Rightarrow> matrix" where
  "kron A B =
     concat (map (\<lambda>row_a. map (\<lambda>row_b. concat (map (\<lambda>a. map ((*) a) row_b) row_a)) B) A)"

definition np_reshape :: "vector \<Rightarrow> nat \<times> nat \<Rightarrow> matrix option" where
  "np_reshape v shape =
     (case shape of (r, c) \<Rightarrow>
        if length v = r * c then Some (map (\<lambda>i. take c (drop (i * c) v)) [0..<r]) else None)"

definition identity :: "nat \<Rightarrow> matrix" where
  "identity n = map (\<lambda>i. map (\<lambda>j. if i = j then 1 else 0) [0..<n]) [0..<n]"

text \<open>
  \<open>np.linalg.inv\<close>, in exact arithmetic: Gauss-Jordan elimination on the matrix extended by
  the identity. \<open>done\<close> holds the rows that already have their pivot, \<open>todo\<close> the others; a
  column without a pivot means a singular matrix.
\<close>

definition eliminate :: "nat \<Rightarrow> vector \<Rightarrow> vector \<Rightarrow> vector" where
  "eliminate k pivot row = map2 (\<lambda>x y. x - (row ! k) * y) row pivot"

primrec gauss_jordan :: "nat \<Rightarrow> matrix \<Rightarrow> matrix \<Rightarrow> matrix option" where
  "gauss_jordan 0 done todo = Some done"
| "gauss_jordan (Suc n) done todo =
     (let k = length done in
      case List.find (\<lambda>row. row ! k \<noteq> 0) todo of
        None \<Rightarrow> None
      | Some p \<Rightarrow>
          (let pivot = map (\<lambda>x. x / (p ! k)) p
           in gauss_jordan n (map (eliminate k pivot) done @ [pivot])
                (map (eliminate k pivot) (remove1 p todo))))"

definition np_linalg_inv :: "matrix \<Rightarrow> matrix option" where
  "np_linalg_inv A =
     (let n = length A in
      if list_all (\<lambda>row. length row = n) A
      then map_option (map (drop n)) (gauss_jordan n [] (map2 (@) A (identity n)))
      else None)"

subsection \<open>The Pauli matrices and the Hilbert-Schmidt product\<close>

text \<open>
  \<^verbatim>\<open>
  I = np.array([[1,0],[0,1]])
  X = np.array([[0,1],[1,0]])
  Y = np.array([[0,-1j],[1j,0]])
  Z = np.array([[1,0],[0,-1]])

  def HS_product(A,B):
      return 0.5*np.trace(np.conj(B).T @ A)
  \<close>
\<close>

definition I :: matrix where "I = [[1, 0], [0, 1]]"
definition X :: matrix where "X = [[0, 1], [1, 0]]"
definition Y :: matrix where "Y = [[0, - \<i>], [\<i>, 0]]"
definition Z :: matrix where "Z = [[1, 0], [0, - 1]]"

definition HS_product :: "matrix \<Rightarrow> matrix \<Rightarrow> complex option" where
  "HS_product A B = map_option (\<lambda>P. (1 / 2) * np_trace P) (np_matmul (conj_T B) A)"

subsection \<open>Linear inversion\<close>

text \<open>
  \<^verbatim>\<open>
  PX0 = 0.5*np.array([[1, 1], [1, 1]])
  PX1 = 0.5*np.array([[1, -1], [-1, 1]])
  PY0 = 0.5*np.array([[1, -1j], [1j, 1]])
  PY1 = 0.5*np.array([[1, 1j], [-1j, 1]])
  PZ0 = np.array([[1, 0], [0, 0]])
  PZ1 = np.array([[0, 0], [0, 1]])
  projectors = [PX0, PX1, PY0, PY1, PZ0, PZ1]

  M = np.array([p.flatten() for p in projectors])

  M_dg = np.conj(M).T
  linear_inversion_matrix = np.linalg.inv(M_dg @ M) @ M_dg

  projectors_2 = [np.kron(p1, p2) for (p1, p2) in itertools.product(projectors, repeat = 2)]
  M_2 = np.array([p.flatten() for p in projectors_2])
  M_dg_2 = np.conj(M_2).T
  linear_inversion_matrix_2 = np.linalg.inv(M_dg_2 @ M_2) @ M_dg_2
  \<close>
\<close>

definition PX0 :: matrix where "PX0 = scale (1 / 2) [[1, 1], [1, 1]]"
definition PX1 :: matrix where "PX1 = scale (1 / 2) [[1, - 1], [- 1, 1]]"
definition PY0 :: matrix where "PY0 = scale (1 / 2) [[1, - \<i>], [\<i>, 1]]"
definition PY1 :: matrix where "PY1 = scale (1 / 2) [[1, \<i>], [- \<i>, 1]]"
definition PZ0 :: matrix where "PZ0 = [[1, 0], [0, 0]]"
definition PZ1 :: matrix where "PZ1 = [[0, 0], [0, 1]]"

definition projectors :: "matrix list" where
  "projectors = [PX0, PX1, PY0, PY1, PZ0, PZ1]"

definition M :: matrix where
  "M = map flatten projectors"

definition M_dg :: matrix where
  "M_dg = conj_T M"

definition linear_inversion_matrix :: "matrix option" where
  "linear_inversion_matrix =
     Option.bind (np_matmul M_dg M) (\<lambda>gram.
     Option.bind (np_linalg_inv gram) (\<lambda>inv. np_matmul inv M_dg))"

definition projectors_2 :: "matrix list" where
  "projectors_2 = map (\<lambda>(p1, p2). kron p1 p2) (List.product projectors projectors)"

definition M_2 :: matrix where
  "M_2 = map flatten projectors_2"

definition M_dg_2 :: matrix where
  "M_dg_2 = conj_T M_2"

definition linear_inversion_matrix_2 :: "matrix option" where
  "linear_inversion_matrix_2 =
     Option.bind (np_matmul M_dg_2 M_2) (\<lambda>gram.
     Option.bind (np_linalg_inv gram) (\<lambda>inv. np_matmul inv M_dg_2))"

text \<open>
  The reconstruction cell. There \<open>p\<close> and \<open>M\<close> come from the fitter of the tomography
  library, so they are the arguments \<open>p\<close> and \<open>M_fit\<close> here. The cell computes in
  \<open>complex128\<close>; \<open>rho_bell\<close> is its computation in exact arithmetic, without the rounding.
  \<^verbatim>\<open>
  p, M, weights = statefit._fitter_data(True, 0.5)

  M_dg = np.conj(M).T
  linear_inversion_matrix = np.linalg.inv(M_dg @ M) @ M_dg
  rho_bell = linear_inversion_matrix @ p
  rho_bell = np.reshape(rho_bell, (4, 4))
  \<close>
\<close>

definition rho_bell :: "matrix \<Rightarrow> vector \<Rightarrow> matrix option" where
  "rho_bell M_fit p =
     Option.bind (np_matmul (conj_T M_fit) M_fit) (\<lambda>gram.
     Option.bind (np_linalg_inv gram) (\<lambda>inv.
     Option.bind (np_matmul inv (conj_T M_fit)) (\<lambda>linear_inversion_matrix.
     Option.bind (np_matvec linear_inversion_matrix p) (\<lambda>rho. np_reshape rho (4, 4)))))"

subsection \<open>Values used in the proofs\<close>

text \<open>
  The density matrix of the Bell state \<open>(|00> + |11>) / sqrt 2\<close> that the notebook
  prepares, the probabilities of the 36 outcomes for that state in the order of
  \<open>projectors_2\<close>, the value of \<open>M_dg_2 @ M_2\<close>, and the inverse of that value.
\<close>

definition p_phi_plus :: vector where
  "p_phi_plus =
     [1 / 2, 0, 1 / 4, 1 / 4, 1 / 4, 1 / 4,
      0, 1 / 2, 1 / 4, 1 / 4, 1 / 4, 1 / 4,
      1 / 4, 1 / 4, 0, 1 / 2, 1 / 4, 1 / 4,
      1 / 4, 1 / 4, 1 / 2, 0, 1 / 4, 1 / 4,
      1 / 4, 1 / 4, 1 / 4, 1 / 4, 1 / 2, 0,
      1 / 4, 1 / 4, 1 / 4, 1 / 4, 0, 1 / 2]"

definition rho_phi_plus :: matrix where
  "rho_phi_plus = [[1 / 2, 0, 0, 1 / 2], [0, 0, 0, 0], [0, 0, 0, 0], [1 / 2, 0, 0, 1 / 2]]"

definition gram_2 :: matrix where
  "gram_2 =
     [[4, 0, 0, 0, 0, 2, 0, 0, 0, 0, 2, 0, 0, 0, 0, 1],
      [0, 2, 0, 0, 0, 0, 0, 0, 0, 0, 0, 1, 0, 0, 0, 0],
      [0, 0, 2, 0, 0, 0, 0, 1, 0, 0, 0, 0, 0, 0, 0, 0],
      [0, 0, 0, 1, 0, 0, 0, 0, 0, 0, 0, 0, 0, 0, 0, 0],
      [0, 0, 0, 0, 2, 0, 0, 0, 0, 0, 0, 0, 0, 0, 1, 0],
      [2, 0, 0, 0, 0, 4, 0, 0, 0, 0, 1, 0, 0, 0, 0, 2],
      [0, 0, 0, 0, 0, 0, 1, 0, 0, 0, 0, 0, 0, 0, 0, 0],
      [0, 0, 1, 0, 0, 0, 0, 2, 0, 0, 0, 0, 0, 0, 0, 0],
      [0, 0, 0, 0, 0, 0, 0, 0, 2, 0, 0, 0, 0, 1, 0, 0],
      [0, 0, 0, 0, 0, 0, 0, 0, 0, 1, 0, 0, 0, 0, 0, 0],
      [2, 0, 0, 0, 0, 1, 0, 0, 0, 0, 4, 0, 0, 0, 0, 2],
      [0, 1, 0, 0, 0, 0, 0, 0, 0, 0, 0, 2, 0, 0, 0, 0],
      [0, 0, 0, 0, 0, 0, 0, 0, 0, 0, 0, 0, 1, 0, 0, 0],
      [0, 0, 0, 0, 0, 0, 0, 0, 1, 0, 0, 0, 0, 2, 0, 0],
      [0, 0, 0, 0, 1, 0, 0, 0, 0, 0, 0, 0, 0, 0, 2, 0],
      [1, 0, 0, 0, 0, 2, 0, 0, 0, 0, 2, 0, 0, 0, 0, 4]]"

definition gram_2_inverse :: matrix where
  "gram_2_inverse =
     [[4 / 9, 0, 0, 0, 0, - 2 / 9, 0, 0, 0, 0, - 2 / 9, 0, 0, 0, 0, 1 / 9],
      [0, 2 / 3, 0, 0, 0, 0, 0, 0, 0, 0, 0, - 1 / 3, 0, 0, 0, 0],
      [0, 0, 2 / 3, 0, 0, 0, 0, - 1 / 3, 0, 0, 0, 0, 0, 0, 0, 0],
      [0, 0, 0, 1, 0, 0, 0, 0, 0, 0, 0, 0, 0, 0, 0, 0],
      [0, 0, 0, 0, 2 / 3, 0, 0, 0, 0, 0, 0, 0, 0, 0, - 1 / 3, 0],
      [- 2 / 9, 0, 0, 0, 0, 4 / 9, 0, 0, 0, 0, 1 / 9, 0, 0, 0, 0, - 2 / 9],
      [0, 0, 0, 0, 0, 0, 1, 0, 0, 0, 0, 0, 0, 0, 0, 0],
      [0, 0, - 1 / 3, 0, 0, 0, 0, 2 / 3, 0, 0, 0, 0, 0, 0, 0, 0],
      [0, 0, 0, 0, 0, 0, 0, 0, 2 / 3, 0, 0, 0, 0, - 1 / 3, 0, 0],
      [0, 0, 0, 0, 0, 0, 0, 0, 0, 1, 0, 0, 0, 0, 0, 0],
      [- 2 / 9, 0, 0, 0, 0, 1 / 9, 0, 0, 0, 0, 4 / 9, 0, 0, 0, 0, - 2 / 9],
      [0, - 1 / 3, 0, 0, 0, 0, 0, 0, 0, 0, 0, 2 / 3, 0, 0, 0, 0],
      [0, 0, 0, 0, 0, 0, 0, 0, 0, 0, 0, 0, 1, 0, 0, 0],
      [0, 0, 0, 0, 0, 0, 0, 0, - 1 / 3, 0, 0, 0, 0, 2 / 3, 0, 0],
      [0, 0, 0, 0, - 1 / 3, 0, 0, 0, 0, 0, 0, 0, 0, 0, 2 / 3, 0],
      [1 / 9, 0, 0, 0, 0, - 2 / 9, 0, 0, 0, 0, - 2 / 9, 0, 0, 0, 0, 4 / 9]]"

section \<open>Concrete libraries, jobs and states\<close>

text \<open>
  Inputs on which the helpers are run below. In \<open>demo_sdk\<close> every call returns; its job
  is queued for the first four status calls and done afterwards. \<open>error_job\<close> has failed
  and reports \<open>ERROR\<close> for ever. In \<open>no_draw_sdk\<close> the circuit drawer raises, in
  \<open>failing_sdk\<close> the result of the job cannot be fetched.
\<close>

definition demo_job :: job where
  "demo_job =
     \<lparr>status_at = (\<lambda>k. Inr (JobStatus (if k < 4 then ''QUEUED'' else ''DONE''))),
      job_result = Inr ''Result(bell)''\<rparr>"

definition demo_sdk :: sdk where
  "demo_sdk =
     \<lparr>draw_raises = (\<lambda>qc. None),
      plt_raises = (\<lambda>ev. None),
      aer_get_backend = (\<lambda>n. Inr n),
      ibmq_backends = (\<lambda>sim. Inr [''ibmqx4'', ''ibmqx2'']),
      least_busy = (\<lambda>bs. case bs of [] \<Rightarrow> Inl (OtherError ''IndexError'' ''no backends'')
                                | b # _ \<Rightarrow> Inr b),
      execute = (\<lambda>qc b opts. Inr demo_job),
      get_counts = (\<lambda>r qc. Inr [(''00'', 497), (''11'', 527)])\<rparr>"

definition error_job :: job where
  "error_job =
     \<lparr>status_at = (\<lambda>k. Inr (JobStatus ''ERROR'')),
      job_result = Inl (OtherError ''JobError'' ''job failed'')\<rparr>"

definition no_draw_sdk :: sdk where
  "no_draw_sdk =
     demo_sdk\<lparr>draw_raises := (\<lambda>qc. Some (OtherError ''VisualizationError'' ''cannot draw''))\<rparr>"

definition failing_sdk :: sdk where
  "failing_sdk =
     demo_sdk\<lparr>execute := (\<lambda>qc b opts.
        Inr (demo_job\<lparr>job_result := Inl (OtherError ''JobError'' ''job failed'')\<rparr>))\<rparr>"

text \<open>
  A small data set in place of the wine data: four samples of three features. The split
  puts the last \<open>test_size\<close> samples, at most two, in the test set, the scalers leave the
  data as it is and the PCA keeps the first \<open>n_components\<close> columns. In \<open>no_matplotlib\<close> the import of
  \<open>matplotlib.pyplot\<close> fails.
\<close>

definition demo_sklearn :: sklearn where
  "demo_sklearn =
     \<lparr>load_wine = Inr (Samples 3 [[1, 2, 3], [4, 5, 6], [7, 8, 9], [10, 11, 12]], [0, 1, 2, 0]),
      train_test_split = (\<lambda>data target test_size random_state.
        (let n = length (sample_rows data) - min 2 (nat test_size)
         in Inr (Samples (n_columns data) (take n (sample_rows data)),
                 Samples (n_columns data) (drop n (sample_rows data)),
                 take n target, drop n target))),
      standard_scaler_fit = (\<lambda>train. Inr (\<lambda>a. Inr a)),
      pca_fit = (\<lambda>n_components train.
        Inr (\<lambda>a. Inr (Samples (min (nat n_components) (n_columns a))
                           (map (take (nat n_components)) (sample_rows a))))),
      minmax_scaler_fit = (\<lambda>feature_range all. Inr (\<lambda>a. Inr a)),
      import_pyplot = None,
      pyplot_raises = (\<lambda>ev. None)\<rparr>"

definition no_matplotlib :: sklearn where
  "no_matplotlib =
     demo_sklearn\<lparr>import_pyplot := Some (ImportError ''No module named matplotlib'')\<rparr>"

section \<open>Properties of the execution helpers\<close>

lemma show_results_only_plots: "\<forall>ev \<in> set (snd (show_results lib D)). is_plot ev"
  by (simp add: show_results_def Let_def split: option.split)

lemma show_results_first: "\<exists>acts. snd (show_results lib D) = PltBar [0..<length D] (map snd D) ''center'' # acts"
  by (simp add: show_results_def Let_def split: option.split)

text \<open>
  C10, as the claim states it, fails: \<open>execute_locally\<close> does not always print. With
  \<open>failing_sdk\<close> the call \<open>job_sim.result()\<close> raises; the exception reaches the caller and
  nothing is printed, drawn or plotted.
\<close>

theorem execute_locally_prints_nothing_on_failure:
  "execute_locally failing_sdk ''bell'' False = (Some (OtherError ''JobError'' ''job failed''), [])
   \<and> execute_locally failing_sdk ''bell'' True = (Some (OtherError ''JobError'' ''job failed''), [])"
  by (simp add: execute_locally_def simulate_def failing_sdk_def demo_sdk_def demo_job_def)

text \<open>
  C10, amended. For every circuit for which the four simulator calls return, with a result
  \<open>r\<close> and counts \<open>c\<close>, \<open>execute_locally\<close> first prints \<open>"simulation: "\<close>, the result and
  the counts. What it does next is exactly the call of \<open>draw\<close> when \<open>draw_circuit\<close> is true
  and exactly the actions of \<open>show_results\<close> on the counts when it is false: the circuit is
  drawn if and only if \<open>draw_circuit\<close>, a plot is made if and only if not \<open>draw_circuit\<close>,
  never both. When one of the simulator calls raises, its exception reaches the caller and
  nothing is printed or displayed.
\<close>

theorem execute_locally_prints_then_one_display:
  "(simulate lib qc = Inr (r, c) \<longrightarrow>
      (\<exists>acts. snd (execute_locally lib qc draw_circuit)
                  = Print [PStr ''simulation: '', PResult r, PCounts c] # acts
            \<and> acts = (if draw_circuit then [Draw qc] else snd (show_results lib c))
            \<and> (Draw qc \<in> set acts \<longleftrightarrow> draw_circuit)
            \<and> ((\<exists>ev \<in> set acts. is_plot ev) \<longleftrightarrow> \<not> draw_circuit)))
   \<and> (simulate lib qc = Inl e \<longrightarrow> execute_locally lib qc draw_circuit = (Some e, []))"
proof (intro conjI impI)
  assume sim: "simulate lib qc = Inr (r, c)"
  show "\<exists>acts. snd (execute_locally lib qc draw_circuit)
                  = Print [PStr ''simulation: '', PResult r, PCounts c] # acts
            \<and> acts = (if draw_circuit then [Draw qc] else snd (show_results lib c))
            \<and> (Draw qc \<in> set acts \<longleftrightarrow> draw_circuit)
            \<and> ((\<exists>ev \<in> set acts. is_plot ev) \<longleftrightarrow> \<not> draw_circuit)"
  proof (cases draw_circuit)
    case True
    with sim show ?thesis
      by (simp add: execute_locally_def)
  next
    case False
    obtain rest where rest:
      "snd (show_results lib c) = PltBar [0..<length c] (map snd c) ''center'' # rest"
      using show_results_first by blast
    have plots: "\<forall>ev \<in> set (snd (show_results lib c)). is_plot ev"
      by (rule show_results_only_plots)
    have no_draw: "Draw qc \<notin> set (snd (show_results lib c))"
      using plots by auto
    have some_plot: "\<exists>ev \<in> set (snd (show_results lib c)). is_plot ev"
      by (simp add: rest)
    from sim False no_draw some_plot show ?thesis
      by (simp add: execute_locally_def split: prod.split)
  qed
next
  assume "simulate lib qc = Inl e"
  then show "execute_locally lib qc draw_circuit = (Some e, [])"
    by (simp add: execute_locally_def)
qed

text \<open>
  With \<open>demo_sdk\<close> the simulation returns and the counts are printed and then plotted or the
  circuit drawn; with a simulator that has no backend nothing is printed.
\<close>

theorem execute_locally_prints_then_one_display_witness:
  "simulate demo_sdk ''bell'' = Inr (''Result(bell)'', [(''00'', 497), (''11'', 527)])
   \<and> snd (execute_locally demo_sdk ''bell'' False)
       = [Print [PStr ''simulation: '', PResult ''Result(bell)'', PCounts [(''00'', 497), (''11'', 527)]],
          PltBar [0, 1] [497, 527] ''center'', PltXticks [0, 1] [''00'', ''11''], PltShow]
   \<and> snd (execute_locally demo_sdk ''bell'' True)
       = [Print [PStr ''simulation: '', PResult ''Result(bell)'', PCounts [(''00'', 497), (''11'', 527)]],
          Draw ''bell'']
   \<and> simulate (demo_sdk\<lparr>aer_get_backend := (\<lambda>n. Inl (OtherError ''QiskitError'' ''no backend''))\<rparr>) ''ghz''
       = Inl (OtherError ''QiskitError'' ''no backend'')
   \<and> execute_locally (demo_sdk\<lparr>aer_get_backend := (\<lambda>n. Inl (OtherError ''QiskitError'' ''no backend''))\<rparr>)
        ''ghz'' True = (Some (OtherError ''QiskitError'' ''no backend''), [])"
proof -
  let ?none = "demo_sdk\<lparr>aer_get_backend := (\<lambda>n. Inl (OtherError ''QiskitError'' ''no backend''))\<rparr>"
  have sim: "simulate demo_sdk ''bell'' = Inr (''Result(bell)'', [(''00'', 497), (''11'', 527)])"
    by (simp add: simulate_def demo_sdk_def demo_job_def)
  have shown: "snd (show_results demo_sdk [(''00'', 497), (''11'', 527)])
      = [PltBar [0, 1] [497, 527] ''center'', PltXticks [0, 1] [''00'', ''11''], PltShow]"
    by (simp add: show_results_def demo_sdk_def Let_def upt_rec numeral_eq_Suc)
  have fails: "simulate ?none ''ghz'' = Inl (OtherError ''QiskitError'' ''no backend'')"
    by (simp add: simulate_def)
  from execute_locally_prints_then_one_display [of demo_sdk "''bell''" _ _ False] sim shown
  have plotted: "snd (execute_locally demo_sdk ''bell'' False)
       = [Print [PStr ''simulation: '', PResult ''Result(bell)'', PCounts [(''00'', 497), (''11'', 527)]],
          PltBar [0, 1] [497, 527] ''center'', PltXticks [0, 1] [''00'', ''11''], PltShow]"
    by auto
  from execute_locally_prints_then_one_display [of demo_sdk "''bell''" _ _ True] sim
  have drawn: "snd (execute_locally demo_sdk ''bell'' True)
       = [Print [PStr ''simulation: '', PResult ''Result(bell)'', PCounts [(''00'', 497), (''11'', 527)]],
          Draw ''bell'']"
    by auto
  from execute_locally_prints_then_one_display [of ?none "''ghz''" _ _ True] fails
  have silent: "execute_locally ?none ''ghz'' True = (Some (OtherError ''QiskitError'' ''no backend''), [])"
    by blast
  from sim plotted drawn fails silent show ?thesis by blast
qed

subsection \<open>The wait loop\<close>

text \<open>One round of the loop, and its exit.\<close>

lemma wait_loop_round:
  assumes "status_at job_exp (status_calls s) = Inr st" and "name st \<noteq> ''DONE''"
    and "status_at job_exp (status_calls s + 1) = Inr st'"
  shows "wait_loop job_exp s =
         wait_loop job_exp
           \<lparr>status_calls = status_calls s + 2, lapse = lapse s + 1,
            printed = printed s @ [status_line (lapse s), Print [PStatus st'], Sleep interval]\<rparr>"
  using assms by (subst wait_loop.simps) simp

lemma wait_loop_DONE:
  assumes "status_at job_exp (status_calls s) = Inr st" and "name st = ''DONE''"
  shows "wait_loop job_exp s = Some (None, s\<lparr>status_calls := status_calls s + 1\<rparr>)"
  using assms by (subst wait_loop.simps) simp

lemma wait_loop_exit:
  assumes "wait_loop job_exp s = Some r"
  shows "\<forall>s'. r = (None, s') \<longrightarrow>
           (\<exists>n acts. lapse s' = lapse s + n
              \<and> status_calls s' = status_calls s + 2 * n + 1
              \<and> printed s' = printed s @ acts
              \<and> filter is_sleep acts = replicate n (Sleep interval)
              \<and> (\<forall>i<n. \<exists>st. status_at job_exp (status_calls s + 2 * i) = Inr st \<and> name st \<noteq> ''DONE'')
              \<and> (\<exists>st. status_at job_exp (status_calls s + 2 * n) = Inr st \<and> name st = ''DONE''))"
  using assms
proof (induction job_exp s r rule: wait_loop.raw_induct [rotated 1, consumes 1, case_names 1])
  case (1 wait_loop' job_exp s r)
  show ?case
  proof (cases "status_at job_exp (status_calls s)")
    case (Inl e)
    with 1(2) show ?thesis by auto
  next
    case (Inr st)
    show ?thesis
    proof (cases "name st = ''DONE''")
      case True
      with Inr 1(2) have r: "r = (None, s\<lparr>status_calls := status_calls s + 1\<rparr>)" by simp
      show ?thesis
      proof (intro allI impI)
        fix s' assume "r = (None, s')"
        with r have s': "s' = s\<lparr>status_calls := status_calls s + 1\<rparr>" by simp
        show "\<exists>n acts. lapse s' = lapse s + n
              \<and> status_calls s' = status_calls s + 2 * n + 1
              \<and> printed s' = printed s @ acts
              \<and> filter is_sleep acts = replicate n (Sleep interval)
              \<and> (\<forall>i<n. \<exists>st. status_at job_exp (status_calls s + 2 * i) = Inr st \<and> name st \<noteq> ''DONE'')
              \<and> (\<exists>st. status_at job_exp (status_calls s + 2 * n) = Inr st \<and> name st = ''DONE'')"
          by (rule exI [of _ 0], rule exI [of _ "[]"]) (simp add: s' Inr True)
      qed
    next
      case False
      show ?thesis
      proof (cases "status_at job_exp (status_calls s + 1)")
        case (Inl e)
        with Inr False 1(2) show ?thesis by auto
      next
        case st': (Inr st')
        let ?s2 = "\<lparr>status_calls = status_calls s + 2, lapse = lapse s + 1,
            printed = printed s @ [status_line (lapse s), Print [PStatus st'], Sleep interval]\<rparr>"
        from Inr False st' 1(2) have "wait_loop' job_exp ?s2 = Some r" by simp
        from 1(1) [OF this] have IH: "\<forall>s'. r = (None, s') \<longrightarrow>
           (\<exists>n acts. lapse s' = lapse ?s2 + n
              \<and> status_calls s' = status_calls ?s2 + 2 * n + 1
              \<and> printed s' = printed ?s2 @ acts
              \<and> filter is_sleep acts = replicate n (Sleep interval)
              \<and> (\<forall>i<n. \<exists>st. status_at job_exp (status_calls ?s2 + 2 * i) = Inr st \<and> name st \<noteq> ''DONE'')
              \<and> (\<exists>st. status_at job_exp (status_calls ?s2 + 2 * n) = Inr st \<and> name st = ''DONE''))" .
        show ?thesis
        proof (intro allI impI)
          fix s' assume "r = (None, s')"
          with IH obtain n acts where n: "lapse s' = lapse ?s2 + n"
              "status_calls s' = status_calls ?s2 + 2 * n + 1"
              "printed s' = printed ?s2 @ acts"
              "filter is_sleep acts = replicate n (Sleep interval)"
              "\<forall>i<n. \<exists>st. status_at job_exp (status_calls ?s2 + 2 * i) = Inr st \<and> name st \<noteq> ''DONE''"
              "\<exists>st. status_at job_exp (status_calls ?s2 + 2 * n) = Inr st \<and> name st = ''DONE''"
            by blast
          have pending: "\<forall>i<Suc n. \<exists>st. status_at job_exp (status_calls s + 2 * i) = Inr st \<and> name st \<noteq> ''DONE''"
          proof (intro allI impI)
            fix i assume "i < Suc n"
            show "\<exists>st. status_at job_exp (status_calls s + 2 * i) = Inr st \<and> name st \<noteq> ''DONE''"
            proof (cases i)
              case 0
              with Inr False show ?thesis by simp
            next
              case (Suc j)
              with \<open>i < Suc n\<close> n(5) have "\<exists>st. status_at job_exp (status_calls ?s2 + 2 * j) = Inr st \<and> name st \<noteq> ''DONE''"
                by simp
              with Suc show ?thesis by (simp add: add.commute add.left_commute)
            qed
          qed
          show "\<exists>n acts. lapse s' = lapse s + n
              \<and> status_calls s' = status_calls s + 2 * n + 1
              \<and> printed s' = printed s @ acts
              \<and> filter is_sleep acts = replicate n (Sleep interval)
              \<and> (\<forall>i<n. \<exists>st. status_at job_exp (status_calls s + 2 * i) = Inr st \<and> name st \<noteq> ''DONE'')
              \<and> (\<exists>st. status_at job_exp (status_calls s + 2 * n) = Inr st \<and> name st = ''DONE'')"
            apply (rule exI [of _ "Suc n"])
            apply (rule exI [of _ "[status_line (lapse s), Print [PStatus st'], Sleep interval] @ acts"])
            using n pending by (simp add: status_line_def add.commute add.left_commute)
        qed
      qed
    qed
  qed
qed

lemma wait_loop_never_returns:
  assumes pending: "\<forall>k. \<exists>st. status_at job_exp k = Inr st \<and> name st \<noteq> ''DONE''"
  shows "wait_loop job_exp s = None"
proof (rule ccontr)
  assume "wait_loop job_exp s \<noteq> None"
  then obtain r where "wait_loop job_exp s = Some r" by auto
  then have "\<not> (\<forall>k. \<exists>st. status_at job_exp k = Inr st \<and> name st \<noteq> ''DONE'')"
  proof (induction job_exp s r rule: wait_loop.raw_induct [rotated 1, consumes 1, case_names 1])
    case (1 wait_loop' job_exp s r)
    show ?case
    proof
      assume all: "\<forall>k. \<exists>st. status_at job_exp k = Inr st \<and> name st \<noteq> ''DONE''"
      then obtain st where st: "status_at job_exp (status_calls s) = Inr st" "name st \<noteq> ''DONE''"
        by blast
      from all obtain st' where st': "status_at job_exp (status_calls s + 1) = Inr st'"
        by blast
      from 1(2) st st' obtain s2 where "wait_loop' job_exp s2 = Some r" by simp
      from 1(1) [OF this] all show False by simp
    qed
  qed
  with pending show False by simp
qed

lemma wait_loop_returns:
  assumes "\<forall>i<n. \<exists>st st'. status_at job_exp (status_calls s + 2 * i) = Inr st \<and> name st \<noteq> ''DONE''
              \<and> status_at job_exp (status_calls s + 2 * i + 1) = Inr st'"
    and "\<exists>st. status_at job_exp (status_calls s + 2 * n) = Inr st \<and> name st = ''DONE''"
  shows "\<exists>s'. wait_loop job_exp s = Some (None, s') \<and> lapse s' = lapse s + n"
  using assms
proof (induction n arbitrary: s)
  case 0
  then show ?case by (auto simp: wait_loop_DONE)
next
  case (Suc n)
  from Suc.prems(1) obtain st st' where st: "status_at job_exp (status_calls s) = Inr st"
      "name st \<noteq> ''DONE''" "status_at job_exp (status_calls s + 1) = Inr st'"
    by fastforce
  let ?s2 = "\<lparr>status_calls = status_calls s + 2, lapse = lapse s + 1,
            printed = printed s @ [status_line (lapse s), Print [PStatus st'], Sleep interval]\<rparr>"
  have "\<forall>i<n. \<exists>st st'. status_at job_exp (status_calls ?s2 + 2 * i) = Inr st \<and> name st \<noteq> ''DONE''
              \<and> status_at job_exp (status_calls ?s2 + 2 * i + 1) = Inr st'"
  proof (intro allI impI)
    fix i assume "i < n"
    then have "Suc i < Suc n" by simp
    with Suc.prems(1) have "\<exists>st st'. status_at job_exp (status_calls s + 2 * Suc i) = Inr st \<and> name st \<noteq> ''DONE''
              \<and> status_at job_exp (status_calls s + 2 * Suc i + 1) = Inr st'" by blast
    then show "\<exists>st st'. status_at job_exp (status_calls ?s2 + 2 * i) = Inr st \<and> name st \<noteq> ''DONE''
              \<and> status_at job_exp (status_calls ?s2 + 2 * i + 1) = Inr st'"
      by (simp add: add.commute add.left_commute)
  qed
  moreover have "\<exists>st. status_at job_exp (status_calls ?s2 + 2 * n) = Inr st \<and> name st = ''DONE''"
    using Suc.prems(2) by (simp add: add.commute add.left_commute)
  ultimately obtain s' where "wait_loop job_exp ?s2 = Some (None, s')" "lapse s' = lapse ?s2 + n"
    using Suc.IH [of ?s2] by blast
  then show ?case
    by (simp add: wait_loop_round [OF st])
qed

text \<open>
  C1. The wait loop of \<open>execute_remotely\<close>, for every job and every state it starts in.
  If the loop ends without an exception, it has made some number \<open>n\<close> of rounds: the
  counter \<open>lapse\<close> has grown by \<open>n\<close>, the calls of \<open>time.sleep\<close> are \<open>n\<close> calls with 10
  seconds each, the status read by the condition was not named \<open>DONE\<close> in any of the \<open>n\<close>
  rounds, and the status that ended the loop is named \<open>DONE\<close>. If every status call returns
  a status that is not named \<open>DONE\<close> (\<open>ERROR\<close>, \<open>CANCELLED\<close>, \<open>QUEUED\<close>, ...), the loop
  never ends: there is no retry limit and no other way out. And the loop does end, after \<open>m\<close>
  rounds, when the status is first named \<open>DONE\<close> at the condition of round \<open>m\<close>.
\<close>

theorem wait_loop_exits_only_on_DONE:
  "(wait_loop job_exp s = Some (None, s') \<longrightarrow>
      (\<exists>n acts. lapse s' = lapse s + n
         \<and> status_calls s' = status_calls s + 2 * n + 1
         \<and> printed s' = printed s @ acts
         \<and> filter is_sleep acts = replicate n (Sleep 10)
         \<and> (\<forall>i<n. \<exists>st. status_at job_exp (status_calls s + 2 * i) = Inr st \<and> name st \<noteq> ''DONE'')
         \<and> (\<exists>st. status_at job_exp (status_calls s + 2 * n) = Inr st \<and> name st = ''DONE'')))
   \<and> ((\<forall>k. \<exists>st. status_at job_exp k = Inr st \<and> name st \<noteq> ''DONE'') \<longrightarrow> wait_loop job_exp s = None)
   \<and> ((\<forall>i<m. \<exists>st st'. status_at job_exp (status_calls s + 2 * i) = Inr st \<and> name st \<noteq> ''DONE''
              \<and> status_at job_exp (status_calls s + 2 * i + 1) = Inr st')
        \<and> (\<exists>st. status_at job_exp (status_calls s + 2 * m) = Inr st \<and> name st = ''DONE'')
      \<longrightarrow> (\<exists>s''. wait_loop job_exp s = Some (None, s'') \<and> lapse s'' = lapse s + m))"
proof (intro conjI impI)
  assume "wait_loop job_exp s = Some (None, s')"
  from wait_loop_exit [OF this]
  show "\<exists>n acts. lapse s' = lapse s + n
         \<and> status_calls s' = status_calls s + 2 * n + 1
         \<and> printed s' = printed s @ acts
         \<and> filter is_sleep acts = replicate n (Sleep 10)
         \<and> (\<forall>i<n. \<exists>st. status_at job_exp (status_calls s + 2 * i) = Inr st \<and> name st \<noteq> ''DONE'')
         \<and> (\<exists>st. status_at job_exp (status_calls s + 2 * n) = Inr st \<and> name st = ''DONE'')"
    by (simp add: interval_def)
next
  assume "\<forall>k. \<exists>st. status_at job_exp k = Inr st \<and> name st \<noteq> ''DONE''"
  then show "wait_loop job_exp s = None" by (rule wait_loop_never_returns)
next
  assume "(\<forall>i<m. \<exists>st st'. status_at job_exp (status_calls s + 2 * i) = Inr st \<and> name st \<noteq> ''DONE''
              \<and> status_at job_exp (status_calls s + 2 * i + 1) = Inr st')
        \<and> (\<exists>st. status_at job_exp (status_calls s + 2 * m) = Inr st \<and> name st = ''DONE'')"
  then show "\<exists>s''. wait_loop job_exp s = Some (None, s'') \<and> lapse s'' = lapse s + m"
    using wait_loop_returns [of m job_exp s] by blast
qed

text \<open>
  The job of \<open>demo_sdk\<close> leaves the loop after two rounds and twenty seconds of sleep; the
  failed job \<open>error_job\<close> never leaves it.
\<close>

lemma wait_loop_demo_job:
  "wait_loop demo_job \<lparr>status_calls = 0, lapse = 0, printed = []\<rparr>
     = Some (None, \<lparr>status_calls = 5, lapse = 2,
          printed = [Print [PStr ''Status @ 0 seconds''], Print [PStatus (JobStatus ''QUEUED'')], Sleep 10,
                     Print [PStr ''Status @ 10 seconds''], Print [PStatus (JobStatus ''QUEUED'')], Sleep 10]\<rparr>)"
  by (simp add: wait_loop.simps demo_job_def status_line_def interval_def str_nat.simps)

theorem wait_loop_exits_only_on_DONE_witness:
  "wait_loop demo_job \<lparr>status_calls = 0, lapse = 0, printed = []\<rparr>
     = Some (None, \<lparr>status_calls = 5, lapse = 2,
          printed = [Print [PStr ''Status @ 0 seconds''], Print [PStatus (JobStatus ''QUEUED'')], Sleep 10,
                     Print [PStr ''Status @ 10 seconds''], Print [PStatus (JobStatus ''QUEUED'')], Sleep 10]\<rparr>)
   \<and> status_at demo_job 4 = Inr (JobStatus ''DONE'')
   \<and> (\<exists>st. status_at demo_job (0 + 2 * 2) = Inr st \<and> name st = ''DONE'')
   \<and> (\<forall>k. \<exists>st. status_at error_job k = Inr st \<and> name st \<noteq> ''DONE'')
   \<and> wait_loop error_job \<lparr>status_calls = 0, lapse = 0, printed = []\<rparr> = None
   \<and> (\<exists>s''. wait_loop demo_job \<lparr>status_calls = 0, lapse = 0, printed = []\<rparr> = Some (None, s'')
          \<and> lapse s'' = 0 + 2)"
proof -
  let ?s0 = "\<lparr>status_calls = 0, lapse = 0, printed = []\<rparr>"
  have pending: "\<forall>k. \<exists>st. status_at error_job k = Inr st \<and> name st \<noteq> ''DONE''"
    by (simp add: error_job_def)
  have never: "wait_loop error_job ?s0 = None"
    using wait_loop_exits_only_on_DONE [of error_job ?s0] pending by blast
  have rounds: "\<forall>i<2. \<exists>st st'. status_at demo_job (status_calls ?s0 + 2 * i) = Inr st \<and> name st \<noteq> ''DONE''
              \<and> status_at demo_job (status_calls ?s0 + 2 * i + 1) = Inr st'"
    by (simp add: demo_job_def)
  have finished: "\<exists>st. status_at demo_job (status_calls ?s0 + 2 * 2) = Inr st \<and> name st = ''DONE''"
    by (simp add: demo_job_def)
  have returns: "\<exists>s''. wait_loop demo_job ?s0 = Some (None, s'') \<and> lapse s'' = lapse ?s0 + 2"
    using wait_loop_exits_only_on_DONE [of demo_job ?s0 _ 2] rounds finished by blast
  from wait_loop_demo_job pending never returns finished show ?thesis
    by (simp add: demo_job_def)
qed

subsection \<open>The catch-all of \<open>execute_remotely\<close>\<close>

text \<open>
  C2, as the claim states it, fails: the circuit is drawn before the \<open>try\<close> block, so an
  exception of \<open>draw\<close> reaches the caller of \<open>execute_remotely\<close>.
\<close>

theorem execute_remotely_draw_failure_propagates:
  "execute_remotely no_draw_sdk ''bell'' True
     = Some (Some (OtherError ''VisualizationError'' ''cannot draw''), [Draw ''bell''])"
  by (simp add: execute_remotely_def no_draw_sdk_def demo_sdk_def)

text \<open>
  C2, amended. An exception reaches the caller of \<open>execute_remotely\<close> if and only if
  \<open>draw_circuit\<close> is true and \<open>draw\<close> raised it, before the \<open>try\<close> block: an exception of
  \<open>draw\<close> is not caught, and then nothing but the call of \<open>draw\<close> was done. Every exception
  raised inside the \<open>try\<close> block (device selection, job submission, status polling, result
  retrieval, printing and showing the result) is caught: \<open>execute_remotely\<close> then prints
  exactly \<open>All devices are currently unavailable.\<close> after what the block had done and
  returns normally. When the block raises nothing, the message is not printed.
\<close>

theorem execute_remotely_catches_try_block:
  "(execute_remotely lib qc draw_circuit = Some (Some e, acts) \<longleftrightarrow>
      draw_circuit \<and> draw_raises lib qc = Some e \<and> acts = [Draw qc])
   \<and> ((if draw_circuit then draw_raises lib qc else None) = None
        \<and> try_block lib qc draw_circuit = Some (Some e', acts') \<longrightarrow>
      execute_remotely lib qc draw_circuit
        = Some (None, (if draw_circuit then [Draw qc] else []) @ acts'
                  @ [Print [PStr ''All devices are currently unavailable.'']]))
   \<and> ((if draw_circuit then draw_raises lib qc else None) = None
        \<and> try_block lib qc draw_circuit = Some (None, acts') \<longrightarrow>
      execute_remotely lib qc draw_circuit
        = Some (None, (if draw_circuit then [Draw qc] else []) @ acts'))"
  by (auto simp: execute_remotely_def unavailable_def Let_def
        split: option.splits if_splits prod.splits)

text \<open>
  With \<open>failing_sdk\<close> the job is polled until it is done, fetching its result raises, and
  the message is printed.
\<close>

lemma try_block_failing_sdk:
  "try_block failing_sdk ''bell'' False
     = Some (Some (OtherError ''JobError'' ''job failed''),
         [Print [PStr ''Running on current least busy device: '', PBackend ''ibmqx4''],
          Print [PStr ''Status @ 0 seconds''], Print [PStatus (JobStatus ''QUEUED'')], Sleep 10,
          Print [PStr ''Status @ 10 seconds''], Print [PStatus (JobStatus ''QUEUED'')], Sleep 10,
          Print [PStatus (JobStatus ''DONE'')]])"
  by (simp add: try_block_def failing_sdk_def demo_sdk_def demo_job_def after_wait_def
        wait_loop.simps status_line_def interval_def str_nat.simps)

theorem execute_remotely_catches_try_block_witness:
  "execute_remotely no_draw_sdk ''bell'' True
      = Some (Some (OtherError ''VisualizationError'' ''cannot draw''), [Draw ''bell''])
   \<and> draw_raises no_draw_sdk ''bell'' = Some (OtherError ''VisualizationError'' ''cannot draw'')
   \<and> try_block failing_sdk ''bell'' False
     = Some (Some (OtherError ''JobError'' ''job failed''),
         [Print [PStr ''Running on current least busy device: '', PBackend ''ibmqx4''],
          Print [PStr ''Status @ 0 seconds''], Print [PStatus (JobStatus ''QUEUED'')], Sleep 10,
          Print [PStr ''Status @ 10 seconds''], Print [PStatus (JobStatus ''QUEUED'')], Sleep 10,
          Print [PStatus (JobStatus ''DONE'')]])
   \<and> execute_remotely failing_sdk ''bell'' False
     = Some (None,
         [Print [PStr ''Running on current least busy device: '', PBackend ''ibmqx4''],
          Print [PStr ''Status @ 0 seconds''], Print [PStatus (JobStatus ''QUEUED'')], Sleep 10,
          Print [PStr ''Status @ 10 seconds''], Print [PStatus (JobStatus ''QUEUED'')], Sleep 10,
          Print [PStatus (JobStatus ''DONE'')],
          Print [PStr ''All devices are currently unavailable.'']])"
proof -
  have draw: "draw_raises no_draw_sdk ''bell'' = Some (OtherError ''VisualizationError'' ''cannot draw'')"
    by (simp add: no_draw_sdk_def)
  from execute_remotely_catches_try_block
         [of no_draw_sdk "''bell''" True "OtherError ''VisualizationError'' ''cannot draw''" "[Draw ''bell'']"]
       draw
  have raised: "execute_remotely no_draw_sdk ''bell'' True
      = Some (Some (OtherError ''VisualizationError'' ''cannot draw''), [Draw ''bell''])"
    by blast
  from execute_remotely_catches_try_block [of failing_sdk "''bell''" False] try_block_failing_sdk
  have caught: "execute_remotely failing_sdk ''bell'' False
     = Some (None,
         [Print [PStr ''Running on current least busy device: '', PBackend ''ibmqx4''],
          Print [PStr ''Status @ 0 seconds''], Print [PStatus (JobStatus ''QUEUED'')], Sleep 10,
          Print [PStr ''Status @ 10 seconds''], Print [PStatus (JobStatus ''QUEUED'')], Sleep 10,
          Print [PStatus (JobStatus ''DONE'')],
          Print [PStr ''All devices are currently unavailable.'']])"
    by simp
  from raised draw try_block_failing_sdk caught show ?thesis by simp
qed

section \<open>Properties of \<open>wine\<close>\<close>

lemma prepare_demo:
  "prepare demo_sklearn 2 2 = Inr (Samples 2 [[1, 2], [4, 5]], Samples 2 [[7, 8], [10, 11]], [0, 1], [2, 0])"
  by (simp add: prepare_def demo_sklearn_def bind_exn_def np_append_def Let_def)

text \<open>
  With one feature the arrays have one column, and the second column that the scatter plot
  reads does not exist, also when no row is left to plot.
\<close>

lemma wine_plot_needs_two_columns:
  "fst (wine demo_sklearn 0 2 1 True)
     = Inl (OtherError ''IndexError'' ''index is out of bounds for axis 1'')"
  by (simp add: wine_def prepare_def demo_sklearn_def bind_exn_def np_append_def Let_def
      slice_rows_def slice_to_def masked_column_def)

lemma prepare_no_matplotlib: "prepare no_matplotlib test_size n_features = prepare demo_sklearn test_size n_features"
  by (simp add: prepare_def no_matplotlib_def)

text \<open>
  C3, as the claim states it, fails: \<open>wine\<close> has an exception handler of its own and raises
  an exception of its own. When \<open>matplotlib.pyplot\<close> cannot be imported, the caller gets a
  \<open>NameError\<close> that no library raised.
\<close>

theorem wine_raises_NameError:
  "import_pyplot no_matplotlib = Some (ImportError ''No module named matplotlib'')
   \<and> wine no_matplotlib 2 2 2 True
      = (Inl (NameError ''Matplotlib not installed. Please install it before plotting''), [])"
  by (simp add: wine_def prepare_no_matplotlib prepare_demo) (simp add: no_matplotlib_def)

text \<open>
  C3, amended. Besides the bare catch-all of \<open>execute_remotely\<close>, \<open>wine\<close> handles one
  exception: with \<open>plot_data\<close> true, an \<open>ImportError\<close> of the import of
  \<open>matplotlib.pyplot\<close> is caught and \<open>NameError('Matplotlib not installed. Please install
  it before plotting')\<close> is raised in its place; any other exception of the import reaches
  the caller unchanged. \<open>execute_locally\<close> has no handler: an exception of the simulator
  calls reaches its caller unchanged.
\<close>

theorem wine_translates_ImportError:
  "(prepare lib test_size n_features = Inr d \<and> import_pyplot lib = Some (ImportError m) \<longrightarrow>
      wine lib training_size test_size n_features True
        = (Inl (NameError ''Matplotlib not installed. Please install it before plotting''), []))
   \<and> (prepare lib test_size n_features = Inr d \<and> import_pyplot lib = Some e
        \<and> (\<forall>m. e \<noteq> ImportError m) \<longrightarrow>
      wine lib training_size test_size n_features True = (Inl e, []))
   \<and> (simulate sim qc = Inl e' \<longrightarrow> execute_locally sim qc draw_circuit = (Some e', []))"
  by (cases e) (auto simp: wine_def execute_locally_def Let_def split: prod.splits)

theorem wine_translates_ImportError_witness:
  "prepare no_matplotlib 2 2 = Inr (Samples 2 [[1, 2], [4, 5]], Samples 2 [[7, 8], [10, 11]], [0, 1], [2, 0])
   \<and> import_pyplot no_matplotlib = Some (ImportError ''No module named matplotlib'')
   \<and> wine no_matplotlib 2 2 2 True
        = (Inl (NameError ''Matplotlib not installed. Please install it before plotting''), [])
   \<and> import_pyplot (demo_sklearn\<lparr>import_pyplot := Some (OtherError ''RuntimeError'' ''no display'')\<rparr>)
        = Some (OtherError ''RuntimeError'' ''no display'')
   \<and> wine (demo_sklearn\<lparr>import_pyplot := Some (OtherError ''RuntimeError'' ''no display'')\<rparr>) 2 2 2 True
        = (Inl (OtherError ''RuntimeError'' ''no display''), [])
   \<and> simulate (demo_sdk\<lparr>aer_get_backend := (\<lambda>n. Inl (OtherError ''QiskitError'' ''no backend''))\<rparr>) ''bell''
        = Inl (OtherError ''QiskitError'' ''no backend'')
   \<and> execute_locally (demo_sdk\<lparr>aer_get_backend := (\<lambda>n. Inl (OtherError ''QiskitError'' ''no backend''))\<rparr>)
        ''bell'' False = (Some (OtherError ''QiskitError'' ''no backend''), [])"
proof -
  let ?other = "demo_sklearn\<lparr>import_pyplot := Some (OtherError ''RuntimeError'' ''no display'')\<rparr>"
  let ?sim = "demo_sdk\<lparr>aer_get_backend := (\<lambda>n. Inl (OtherError ''QiskitError'' ''no backend''))\<rparr>"
  have p1: "prepare no_matplotlib 2 2 = Inr (Samples 2 [[1, 2], [4, 5]], Samples 2 [[7, 8], [10, 11]], [0, 1], [2, 0])"
    by (simp add: prepare_no_matplotlib prepare_demo)
  have i1: "import_pyplot no_matplotlib = Some (ImportError ''No module named matplotlib'')"
    by (simp add: no_matplotlib_def)
  have p2: "prepare ?other 2 2 = Inr (Samples 2 [[1, 2], [4, 5]], Samples 2 [[7, 8], [10, 11]], [0, 1], [2, 0])"
    by (simp add: prepare_def demo_sklearn_def bind_exn_def np_append_def Let_def)
  have i2: "import_pyplot ?other = Some (OtherError ''RuntimeError'' ''no display'')"
    by simp
  have s3: "simulate ?sim ''bell'' = Inl (OtherError ''QiskitError'' ''no backend'')"
    by (simp add: simulate_def)
  note thm1 = wine_translates_ImportError [of no_matplotlib 2 2 _ "''No module named matplotlib''" 2]
  note thm2 = wine_translates_ImportError [of ?other 2 2 _ _ 2 "OtherError ''RuntimeError'' ''no display''"]
  note thm3 = wine_translates_ImportError [of _ _ _ _ _ _ _ ?sim "''bell''" _ False]
  from thm1 p1 i1 have w1: "wine no_matplotlib 2 2 2 True
        = (Inl (NameError ''Matplotlib not installed. Please install it before plotting''), [])"
    by blast
  from thm2 p2 i2 have w2: "wine ?other 2 2 2 True = (Inl (OtherError ''RuntimeError'' ''no display''), [])"
    by blast
  from thm3 s3 have w3: "execute_locally ?sim ''bell'' False = (Some (OtherError ''QiskitError'' ''no backend''), [])"
    by blast
  from p1 i1 w1 i2 w2 s3 w3 show ?thesis by blast
qed

text \<open>
  C8, as the claim states it, fails for a negative \<open>training_size\<close>: the slice
  \<open>[:-1]\<close> drops the last row, and the one test row that is left is more than \<open>-1\<close> rows.
\<close>

theorem wine_negative_training_size:
  "fst (wine demo_sklearn (- 1) 2 2 False) = Inr (Samples 2 [[1, 2]], [0], Samples 2 [[7, 8]], [2])
   \<and> \<not> int (length [[7, 8 :: real]]) \<le> - 1"
  by (simp add: wine_def prepare_demo slice_rows_def slice_to_def)

lemma length_slice_to: "0 \<le> n \<Longrightarrow> int (length (slice_to n xs)) \<le> n"
  by (simp add: slice_to_def)

text \<open>
  C8, amended. Whenever \<open>wine\<close> returns, the test samples and the test labels it returns
  are the slices \<open>[:training_size]\<close> of the scaled test samples and of the test labels of
  the split; \<open>test_size\<close> is not used for them. For \<open>training_size \<ge> 0\<close> these are the
  first \<open>training_size\<close> rows, so that their number never exceeds \<open>training_size\<close>. The
  result depends on \<open>test_size\<close> only through the data preparation that contains the split.
\<close>

theorem wine_test_rows_sliced_by_training_size:
  assumes "prepare lib test_size n_features = Inr (train_all, test_all, label_train_all, label_test_all)"
    and "fst (wine lib training_size test_size n_features plot_data)
           = Inr (sample_train, label_train, sample_test, label_test)"
  shows "sample_test = slice_rows training_size test_all
         \<and> label_test = slice_to training_size label_test_all
         \<and> (0 \<le> training_size \<longrightarrow>
               sample_rows sample_test = take (nat training_size) (sample_rows test_all)
               \<and> label_test = take (nat training_size) label_test_all
               \<and> int (length (sample_rows sample_test)) \<le> training_size
               \<and> int (length label_test) \<le> training_size)
         \<and> (\<forall>test_size'. prepare lib test_size' n_features = prepare lib test_size n_features \<longrightarrow>
               wine lib training_size test_size' n_features plot_data
                 = wine lib training_size test_size n_features plot_data)"
proof -
  let ?returned = "(slice_rows training_size train_all, slice_to training_size label_train_all,
      slice_rows training_size test_all, slice_to training_size label_test_all)"
  have "fst (wine lib training_size test_size n_features plot_data) = Inr ?returned"
    if "fst (wine lib training_size test_size n_features plot_data) = Inr r" for r
  proof (cases plot_data)
    case False
    with assms(1) show ?thesis by (simp add: wine_def)
  next
    case True
    obtain x acts where sc: "scatter_classes lib (slice_rows training_size train_all)
        (slice_to training_size label_train_all) training_size [0, 1, 2] = (x, acts)"
      by (cases "scatter_classes lib (slice_rows training_size train_all)
        (slice_to training_size label_train_all) training_size [0, 1, 2]")
    from that True assms(1) sc show ?thesis
      by (simp add: wine_def Let_def split: option.splits exn.splits del: scatter_classes.simps)
  qed
  from this [OF assms(2)] assms(2) have out: "sample_test = slice_rows training_size test_all"
      "label_test = slice_to training_size label_test_all"
    by simp_all
  have same: "\<forall>test_size'. prepare lib test_size' n_features = prepare lib test_size n_features \<longrightarrow>
               wine lib training_size test_size' n_features plot_data
                 = wine lib training_size test_size n_features plot_data"
    by (simp add: wine_def)
  have bound: "0 \<le> training_size \<longrightarrow>
               sample_rows sample_test = take (nat training_size) (sample_rows test_all)
               \<and> label_test = take (nat training_size) label_test_all
               \<and> int (length (sample_rows sample_test)) \<le> training_size
               \<and> int (length label_test) \<le> training_size"
    by (auto simp: out slice_rows_def slice_to_def)
  from out bound same show ?thesis by blast
qed

text \<open>
  On the small data set: with \<open>training_size = 1\<close> and two test samples, one test row is
  returned; the test sizes 4 and 5 lead to the same split and so to the same result.
\<close>

theorem wine_test_rows_sliced_by_training_size_witness:
  "prepare demo_sklearn 2 2 = Inr (Samples 2 [[1, 2], [4, 5]], Samples 2 [[7, 8], [10, 11]], [0, 1], [2, 0])
   \<and> fst (wine demo_sklearn 1 2 2 False) = Inr (Samples 2 [[1, 2]], [0], Samples 2 [[7, 8]], [2])
   \<and> Samples 2 [[7, 8]] = slice_rows 1 (Samples 2 [[7, 8], [10, 11]])
   \<and> [2] = slice_to 1 [2, 0 :: nat]
   \<and> (0 :: int) \<le> 1
   \<and> int (length [[7, 8 :: real]]) \<le> 1
   \<and> prepare demo_sklearn 5 2 = prepare demo_sklearn 2 2
   \<and> wine demo_sklearn 1 5 2 False = wine demo_sklearn 1 2 2 False"
proof -
  have run: "fst (wine demo_sklearn 1 2 2 False) = Inr (Samples 2 [[1, 2]], [0], Samples 2 [[7, 8]], [2])"
    by (simp add: wine_def prepare_demo slice_rows_def slice_to_def)
  have nonneg: "(0 :: int) \<le> 1" by simp
  have same: "prepare demo_sklearn 5 2 = prepare demo_sklearn 2 2"
    by (simp add: prepare_def demo_sklearn_def bind_exn_def np_append_def Let_def)
  note sliced = wine_test_rows_sliced_by_training_size [OF prepare_demo run]
  from sliced nonneg
  have "Samples 2 [[7, 8]] = slice_rows 1 (Samples 2 [[7, 8], [10, 11]])"
    "[2] = slice_to 1 [2, 0 :: nat]"
    "int (length (sample_rows (Samples 2 [[7, 8]]))) \<le> 1"
    by blast+
  then have "Samples 2 [[7, 8]] = slice_rows 1 (Samples 2 [[7, 8], [10, 11]])"
    "[2] = slice_to 1 [2, 0 :: nat]"
    "int (length [[7, 8 :: real]]) \<le> 1"
    by simp_all
  moreover from sliced same have "wine demo_sklearn 1 5 2 False = wine demo_sklearn 1 2 2 False"
    by blast
  ultimately show ?thesis using prepare_demo run nonneg same by blast
qed

section \<open>Properties of the tomography cells\<close>

subsection \<open>Matrix and vector products\<close>

lemma dot_sum: "dot u v = (\<Sum>i = 0..<min (length u) (length v). u ! i * v ! i)"
proof -
  have "sum_list (map2 (*) u v) = (\<Sum>i = 0..<length (map2 (*) u v). map2 (*) u v ! i)"
    by (rule sum_list_sum_nth)
  also have "\<dots> = (\<Sum>i = 0..<min (length u) (length v). u ! i * v ! i)"
    by (rule sum.cong) auto
  finally show ?thesis by (simp add: dot_def)
qed

lemma dot_matvec_transpose:
  assumes a: "length a = length B"
    and B: "list_all (\<lambda>row. length row = length v) B"
  shows "dot (map (dot a) (transpose B)) v = dot a (matvec B v)"
proof (cases "B = []")
  case True
  then show ?thesis using a by (simp add: dot_def matvec_def)
next
  case False
  let ?m = "length B" and ?n = "length v"
  have rect: "\<And>i. i < ?m \<Longrightarrow> length (B ! i) = ?n"
    using B by (simp add: list_all_length)
  have tr: "transpose B = map (\<lambda>i. map (\<lambda>j. B ! j ! i) [0..<?m]) [0..<?n]"
    by (rule transpose_rectangle) (use False rect in auto)
  have "dot (map (dot a) (transpose B)) v
      = (\<Sum>j = 0..<?n. (\<Sum>k = 0..<?m. a ! k * B ! k ! j) * v ! j)"
  proof -
    have "dot (map (dot a) (transpose B)) v
        = (\<Sum>j = 0..<?n. map (dot a) (transpose B) ! j * v ! j)"
      by (simp add: dot_sum tr)
    also have "\<dots> = (\<Sum>j = 0..<?n. (\<Sum>k = 0..<?m. a ! k * B ! k ! j) * v ! j)"
    proof (rule sum.cong)
      fix j assume "j \<in> {0..<?n}"
      then have j: "j < ?n" by simp
      have "map (dot a) (transpose B) ! j = dot a (map (\<lambda>k. B ! k ! j) [0..<?m])"
        using j by (simp add: tr)
      also have "\<dots> = (\<Sum>k = 0..<?m. a ! k * B ! k ! j)"
        by (simp add: dot_sum a cong: sum.cong) (rule sum.cong, auto)
      finally show "map (dot a) (transpose B) ! j * v ! j
          = (\<Sum>k = 0..<?m. a ! k * B ! k ! j) * v ! j" by simp
    qed simp
    finally show ?thesis .
  qed
  also have "\<dots> = (\<Sum>j = 0..<?n. \<Sum>k = 0..<?m. a ! k * (B ! k ! j * v ! j))"
    by (simp add: sum_distrib_right mult.assoc)
  also have "\<dots> = (\<Sum>k = 0..<?m. \<Sum>j = 0..<?n. a ! k * (B ! k ! j * v ! j))"
    by (rule sum.swap)
  also have "\<dots> = (\<Sum>k = 0..<?m. a ! k * (\<Sum>j = 0..<?n. B ! k ! j * v ! j))"
    by (simp add: sum_distrib_left)
  also have "\<dots> = dot a (matvec B v)"
  proof -
    have "dot a (matvec B v) = (\<Sum>k = 0..<?m. a ! k * matvec B v ! k)"
      by (simp add: dot_sum a matvec_def)
    also have "\<dots> = (\<Sum>k = 0..<?m. a ! k * (\<Sum>j = 0..<?n. B ! k ! j * v ! j))"
    proof (rule sum.cong)
      fix k assume "k \<in> {0..<?m}"
      then have k: "k < ?m" by simp
      then show "a ! k * matvec B v ! k = a ! k * (\<Sum>j = 0..<?n. B ! k ! j * v ! j)"
        by (simp add: matvec_def dot_sum rect)
    qed simp
    finally show ?thesis by simp
  qed
  finally show ?thesis .
qed

text \<open>Multiplying by a product is multiplying twice, when the shapes fit.\<close>

lemma matvec_matmul:
  assumes "list_all (\<lambda>row. length row = length B) A"
    and "list_all (\<lambda>row. length row = length v) B"
  shows "matvec (matmul A B) v = matvec A (matvec B v)"
  using assms by (simp add: matvec_def matmul_def dot_matvec_transpose list_all_iff)

lemma matvec_identity:
  assumes "length v = n"
  shows "matvec (identity n) v = v"
proof (rule nth_equalityI)
  show "length (matvec (identity n) v) = length v"
    using assms by (simp add: matvec_def identity_def)
next
  fix i assume "i < length (matvec (identity n) v)"
  then have i: "i < n" by (simp add: matvec_def identity_def)
  have "dot (map (\<lambda>j. if i = j then 1 else 0) [0..<n]) v
      = (\<Sum>j = 0..<n. (if i = j then 1 else 0) * v ! j)"
    using assms by (simp add: dot_sum)
  also have "\<dots> = (\<Sum>j = 0..<n. if j = i then v ! j else 0)"
    by (rule sum.cong) auto
  also have "\<dots> = v ! i"
    using i by (simp add: sum.delta)
  finally show "matvec (identity n) v ! i = v ! i"
    using i by (simp add: matvec_def identity_def)
qed

lemma left_inverse_recovers:
  assumes LA: "np_matmul L A = Some (identity n)"
    and n: "0 < n"
    and rho: "length rho = n"
  shows "Option.bind (np_matvec A rho) (np_matvec L) = Some rho"
proof -
  from LA have shL: "list_all (\<lambda>row. length row = length A) L"
    and shA: "list_all (\<lambda>row. length row = ncols A) A"
    and prod: "matmul L A = identity n"
    by (auto simp: np_matmul_def split: if_splits)
  from prod n obtain row rows where L: "L = row # rows"
    by (cases L) (auto simp: matmul_def identity_def)
  have "map (dot row) (transpose A) = hd (identity n)"
    using prod L by (simp add: matmul_def flip: prod)
  then have "length (map (dot row) (transpose A)) = length (hd (identity n))"
    by (rule arg_cong)
  also have "\<dots> = n"
    using n by (simp add: identity_def hd_map upt_conv_Cons)
  finally have len_tr: "length (transpose A) = n" by simp
  with n have "A \<noteq> []" by auto
  then have "transpose A = map (\<lambda>i. map (\<lambda>j. A ! j ! i) [0..<length A]) [0..<ncols A]"
    using shA by (intro transpose_rectangle) (auto simp: list_all_length)
  with len_tr have cols: "ncols A = n" by simp
  from shA cols rho have shA': "list_all (\<lambda>row. length row = length rho) A" by simp
  have shL': "list_all (\<lambda>row. length row = length (matvec A rho)) L"
    using shL by (simp add: matvec_def)
  have "matvec L (matvec A rho) = matvec (matmul L A) rho"
    using shL shA' by (simp add: matvec_matmul)
  also have "\<dots> = rho"
    using rho by (simp add: prod matvec_identity)
  finally show ?thesis
    using shA' shL' by (simp add: np_matvec_def)
qed


subsection \<open>The values of the 1-qubit and 2-qubit cells\<close>

lemmas projector_defs = projectors_def PX0_def PX1_def PY0_def PY1_def PZ0_def PZ1_def scale_def

lemma M_rows:
  "M = [[1 / 2, 1 / 2, 1 / 2, 1 / 2],
        [1 / 2, - 1 / 2, - 1 / 2, 1 / 2],
        [1 / 2, - \<i> / 2, \<i> / 2, 1 / 2],
        [1 / 2, \<i> / 2, - \<i> / 2, 1 / 2],
        [1, 0, 0, 0],
        [0, 0, 0, 1]]"
  by (simp add: M_def flatten_def projector_defs)

lemma M_dg_rows:
  "M_dg = [[1 / 2, 1 / 2, 1 / 2, 1 / 2, 1, 0],
           [1 / 2, - 1 / 2, \<i> / 2, - \<i> / 2, 0, 0],
           [1 / 2, - 1 / 2, - \<i> / 2, \<i> / 2, 0, 0],
           [1 / 2, 1 / 2, 1 / 2, 1 / 2, 0, 1]]"
  by (simp add: M_dg_def M_rows conj_T_def)

lemma gram_1_value: "np_matmul M_dg M = Some [[2, 0, 0, 1], [0, 1, 0, 0], [0, 0, 1, 0], [1, 0, 0, 2]]"
  by (simp add: M_dg_rows M_rows np_matmul_def matmul_def ncols_def dot_def)

lemma gram_1_inverse_value:
  "np_linalg_inv [[2, 0, 0, 1], [0, 1, 0, 0], [0, 0, 1, 0], [1, 0, 0, 2]]
     = Some [[2 / 3, 0, 0, - 1 / 3], [0, 1, 0, 0], [0, 0, 1, 0], [- 1 / 3, 0, 0, 2 / 3]]"
  by (simp add: np_linalg_inv_def identity_def eliminate_def Let_def upt_rec numeral_eq_Suc)

lemma linear_inversion_matrix_rows:
  "linear_inversion_matrix =
     Some [[1 / 6, 1 / 6, 1 / 6, 1 / 6, 2 / 3, - 1 / 3],
           [1 / 2, - 1 / 2, \<i> / 2, - \<i> / 2, 0, 0],
           [1 / 2, - 1 / 2, - \<i> / 2, \<i> / 2, 0, 0],
           [1 / 6, 1 / 6, 1 / 6, 1 / 6, - 1 / 3, 2 / 3]]"
  unfolding linear_inversion_matrix_def gram_1_value
  by (simp add: gram_1_inverse_value) (simp add: M_dg_rows np_matmul_def matmul_def ncols_def dot_def)

lemma left_inverse_1: "Option.bind linear_inversion_matrix (\<lambda>L. np_matmul L M) = Some (identity 4)"
  unfolding linear_inversion_matrix_rows
  by (simp add: M_rows np_matmul_def matmul_def ncols_def dot_def identity_def upt_rec numeral_eq_Suc)

lemmas M_2_defs = M_dg_2_def M_2_def projectors_2_def projector_defs kron_def flatten_def conj_T_def

lemma gram_2_value: "np_matmul M_dg_2 M_2 = Some gram_2"
  by (simp add: M_2_defs np_matmul_def matmul_def ncols_def dot_def gram_2_def)

text \<open>
  The values that the model of \<open>np.linalg.inv\<close> returns are the inverses: their products
  with the argument, on either side, are the identity.
\<close>

lemma gram_1_inverse_two_sided:
  "np_matmul [[2 / 3, 0, 0, - 1 / 3], [0, 1, 0, 0], [0, 0, 1, 0], [- 1 / 3, 0, 0, 2 / 3]]
      [[2, 0, 0, 1], [0, 1, 0, 0], [0, 0, 1, 0], [1, 0, 0, 2]] = Some (identity 4)
   \<and> np_matmul [[2, 0, 0, 1], [0, 1, 0, 0], [0, 0, 1, 0], [1, 0, 0, 2]]
      [[2 / 3, 0, 0, - 1 / 3], [0, 1, 0, 0], [0, 0, 1, 0], [- 1 / 3, 0, 0, 2 / 3]] = Some (identity 4)"
  by (simp add: np_matmul_def matmul_def ncols_def dot_def identity_def upt_rec numeral_eq_Suc)

lemma gram_2_inverse_two_sided:
  "np_matmul gram_2_inverse gram_2 = Some (identity 16)
   \<and> np_matmul gram_2 gram_2_inverse = Some (identity 16)"
  by (simp add: np_matmul_def matmul_def ncols_def dot_def identity_def upt_rec numeral_eq_Suc
      gram_2_def gram_2_inverse_def)

lemma gram_2_inverse_value: "np_linalg_inv gram_2 = Some gram_2_inverse"
  by (simp add: np_linalg_inv_def identity_def eliminate_def Let_def upt_rec numeral_eq_Suc
      gram_2_def gram_2_inverse_def)

lemma left_inverse_2: "Option.bind linear_inversion_matrix_2 (\<lambda>L. np_matmul L M_2) = Some (identity 16)"
  unfolding linear_inversion_matrix_2_def gram_2_value
  by (simp add: gram_2_inverse_value)
     (simp add: M_2_defs np_matmul_def matmul_def ncols_def dot_def gram_2_inverse_def
        identity_def upt_rec numeral_eq_Suc)


lemma bind_SomeD: "Option.bind m f = Some y \<Longrightarrow> \<exists>x. m = Some x \<and> f x = Some y"
  by (cases m) auto

text \<open>
  C9. The 1-qubit matrix \<open>linear_inversion_matrix\<close> exists and its product with \<open>M\<close> is
  the 4x4 identity; the 2-qubit matrix \<open>linear_inversion_matrix_2\<close> exists and its product
  with \<open>M_2\<close> is the 16x16 identity, in exact arithmetic. Hence for every flattened 2x2
  matrix \<open>rho\<close> (4 entries), linear inversion of its exact probability vector \<open>M @ rho\<close>
  gives back \<open>rho\<close>, and likewise for every flattened 4x4 matrix (16 entries) and \<open>M_2\<close>.
\<close>

theorem linear_inversion_is_left_inverse:
  "Option.bind linear_inversion_matrix (\<lambda>L. np_matmul L M) = Some (identity 4)
   \<and> Option.bind linear_inversion_matrix_2 (\<lambda>L. np_matmul L M_2) = Some (identity 16)
   \<and> (\<forall>rho. length rho = 4 \<longrightarrow>
          Option.bind linear_inversion_matrix (\<lambda>L. Option.bind (np_matvec M rho) (np_matvec L))
            = Some rho)
   \<and> (\<forall>rho. length rho = 16 \<longrightarrow>
          Option.bind linear_inversion_matrix_2 (\<lambda>L. Option.bind (np_matvec M_2 rho) (np_matvec L))
            = Some rho)"
proof -
  obtain L1 where L1: "linear_inversion_matrix = Some L1" "np_matmul L1 M = Some (identity 4)"
    using bind_SomeD [OF left_inverse_1] by blast
  obtain L2 where L2: "linear_inversion_matrix_2 = Some L2" "np_matmul L2 M_2 = Some (identity 16)"
    using bind_SomeD [OF left_inverse_2] by blast
  have "Option.bind (np_matvec M rho) (np_matvec L1) = Some rho" if "length rho = 4" for rho
    using left_inverse_recovers [OF L1(2) _ that] by simp
  moreover have "Option.bind (np_matvec M_2 rho) (np_matvec L2) = Some rho" if "length rho = 16" for rho
    using left_inverse_recovers [OF L2(2) _ that] by simp
  ultimately show ?thesis
    using left_inverse_1 left_inverse_2 by (simp add: L1(1) L2(1))
qed

theorem linear_inversion_is_left_inverse_witness:
  "length [1 / 2, 1 / 2, 1 / 2, 1 / 2 :: complex] = 4
   \<and> Option.bind linear_inversion_matrix
        (\<lambda>L. Option.bind (np_matvec M [1 / 2, 1 / 2, 1 / 2, 1 / 2]) (np_matvec L))
       = Some [1 / 2, 1 / 2, 1 / 2, 1 / 2]
   \<and> length (flatten rho_phi_plus) = 16
   \<and> Option.bind linear_inversion_matrix_2
        (\<lambda>L. Option.bind (np_matvec M_2 (flatten rho_phi_plus)) (np_matvec L))
       = Some (flatten rho_phi_plus)"
proof -
  have len: "length (flatten rho_phi_plus) = 16"
    by (simp add: flatten_def rho_phi_plus_def)
  from linear_inversion_is_left_inverse len show ?thesis by simp
qed

subsection \<open>The reconstruction cell\<close>

lemma rho_bell_M_2:
  "rho_bell M_2 p =
     Option.bind linear_inversion_matrix_2 (\<lambda>L. Option.bind (np_matvec L p) (\<lambda>rho. np_reshape rho (4, 4)))"
  by (simp add: rho_bell_def linear_inversion_matrix_2_def M_dg_2_def)

lemma reshape_flatten_4:
  assumes "length rho = 4" and "list_all (\<lambda>row. length row = 4) rho"
  shows "np_reshape (flatten rho) (4, 4) = Some rho"
proof -
  from assms(1) obtain r0 r1 r2 r3 where rho: "rho = [r0, r1, r2, r3]"
    by (auto simp: numeral_eq_Suc length_Suc_conv)
  with assms(2) show ?thesis
    by (simp add: np_reshape_def flatten_def upt_rec numeral_eq_Suc)
qed

text \<open>
  The probability vector of a matrix: one scalar product of a flattened projector with the
  flattened matrix for each of the 36 projectors. It is what \<open>M_2 @ rho.flatten()\<close> gives.
\<close>

lemma matvec_M_2: "matvec M_2 v = map (\<lambda>P. dot (flatten P) v) projectors_2"
  by (simp add: matvec_def M_2_def comp_def)

lemma rho_bell_recovers:
  assumes "length rho = 4" and "list_all (\<lambda>row. length row = 4) rho"
  shows "rho_bell M_2 (map (\<lambda>P. dot (flatten P) (flatten rho)) projectors_2) = Some rho"
proof -
  obtain L2 where L2: "linear_inversion_matrix_2 = Some L2" "np_matmul L2 M_2 = Some (identity 16)"
    using bind_SomeD [OF left_inverse_2] by blast
  from assms obtain r0 r1 r2 r3 where rho: "rho = [r0, r1, r2, r3]"
    by (auto simp: numeral_eq_Suc length_Suc_conv)
  have len: "length (flatten rho) = 16"
    using assms(2) by (simp add: rho flatten_def)
  obtain p where p: "np_matvec M_2 (flatten rho) = Some p" "np_matvec L2 p = Some (flatten rho)"
    using bind_SomeD [OF left_inverse_recovers [OF L2(2) _ len]] by auto
  from p(1) have "p = map (\<lambda>P. dot (flatten P) (flatten rho)) projectors_2"
    by (simp add: np_matvec_def matvec_M_2 split: if_splits)
  with p(2) show ?thesis
    by (simp add: rho_bell_M_2 L2(1) reshape_flatten_4 [OF assms])
qed

lemma p_phi_plus_value:
  "p_phi_plus = map (\<lambda>P. dot (flatten P) (flatten rho_phi_plus)) projectors_2"
  by (simp add: p_phi_plus_def rho_phi_plus_def projectors_2_def projector_defs kron_def
      flatten_def dot_def)

text \<open>
  C5, as the claim states it, fails: the reconstruction cell of the notebook carries out
  linear inversion itself. Given the projector matrix \<open>M_2\<close> and the 36 outcome
  probabilities of the Bell state, its computation gives the density matrix of the Bell
  state.
\<close>

theorem rho_bell_reconstructs_bell_state:
  "rho_bell M_2 p_phi_plus = Some rho_phi_plus"
  unfolding p_phi_plus_value
  by (rule rho_bell_recovers) (simp_all add: rho_phi_plus_def)

text \<open>
  C5, amended. Simulation, device queuing, optimisation, PCA and classification are left to
  libraries, but the tomography cells carry out linear-inversion reconstruction: they form
  \<open>inv(M_dg @ M) @ M_dg\<close> from the projector matrix, multiply it with the probability
  vector and reshape the result to a 4x4 matrix, with NumPy for the products and the inverse.
  In exact arithmetic, on the projector matrix \<open>M_2\<close> and the probability vector of any 4x4
  matrix \<open>rho\<close> (the scalar products of the 36 flattened projectors with the flattened
  \<open>rho\<close>), this computation gives \<open>rho\<close>.
\<close>

theorem rho_bell_reconstructs:
  assumes "length rho = 4" and "list_all (\<lambda>row. length row = 4) rho"
  shows "rho_bell M_2 (map (\<lambda>P. dot (flatten P) (flatten rho)) projectors_2) = Some rho"
  using assms by (rule rho_bell_recovers)

text \<open>The state \<open>|00><00|\<close>, the Kronecker product of \<open>PZ0\<close> with itself.\<close>

theorem rho_bell_reconstructs_witness:
  "length (kron PZ0 PZ0) = 4 \<and> list_all (\<lambda>row. length row = 4) (kron PZ0 PZ0)
   \<and> rho_bell M_2 (map (\<lambda>P. dot (flatten P) (flatten (kron PZ0 PZ0))) projectors_2)
       = Some (kron PZ0 PZ0)"
proof -
  have shape: "length (kron PZ0 PZ0) = 4" "list_all (\<lambda>row. length row = 4) (kron PZ0 PZ0)"
    by (simp_all add: kron_def PZ0_def)
  from rho_bell_reconstructs [OF shape] shape show ?thesis by simp
qed

subsection \<open>The Hilbert-Schmidt product\<close>

text \<open>
  C7, as the claim states it, fails: the notebooks define one more helper, \<open>HS_product\<close>,
  and it computes: the product of \<open>PX0\<close> and \<open>PZ0\<close> is one quarter.
\<close>

theorem HS_product_PX0_PZ0: "HS_product PX0 PZ0 = Some (1 / 4)"
  by (simp add: HS_product_def np_matmul_def matmul_def conj_T_def ncols_def dot_def np_trace_def
      upt_rec numeral_eq_Suc projector_defs)

text \<open>
  C7, amended. Besides the glue helpers \<open>show_results\<close>, \<open>execute_locally\<close>,
  \<open>execute_remotely\<close>, \<open>new_circuit\<close> and \<open>wine\<close>, the notebooks define the computational
  helper \<open>HS_product(A, B) = 0.5 * trace(conj(B).T @ A)\<close>. On 2x2 matrices it returns half
  the sum of the products of each entry of \<open>A\<close> with the conjugate of the same entry of
  \<open>B\<close>, the Hilbert-Schmidt inner product.
\<close>

theorem HS_product_2x2:
  "HS_product [[a, b], [c, d]] [[e, f], [g, h]]
     = Some ((cnj e * a + cnj f * b + cnj g * c + cnj h * d) / 2)"
  by (simp add: HS_product_def np_matmul_def matmul_def conj_T_def ncols_def dot_def np_trace_def
      upt_rec numeral_eq_Suc algebra_simps)

text \<open>
  C4, as the claim states it, fails: \<open>HS_product\<close> is a function of its inputs alone. On
  the Pauli matrix \<open>X\<close> with itself it gives 1 and on \<open>X\<close> with \<open>Y\<close> it gives 0, with no
  simulator or device involved.
\<close>

theorem HS_product_X_X: "HS_product X X = Some 1 \<and> HS_product X Y = Some 0"
  by (simp add: HS_product_def np_matmul_def matmul_def conj_T_def ncols_def dot_def np_trace_def
      upt_rec numeral_eq_Suc X_def Y_def)

text \<open>
  C4, amended. What the execution helpers print are the samples that the simulator or the
  device returns: the same circuit with other counts from the backend gives another output.
  But the notebooks also compute deterministically: \<open>HS_product\<close> is a function of its
  inputs alone, under which the Pauli matrices \<open>I\<close>, \<open>X\<close>, \<open>Y\<close>, \<open>Z\<close> are orthonormal, and
  the projector matrix \<open>M\<close> is the fixed 6x4 array that the notebook shows.
\<close>

theorem HS_product_and_M_are_fixed:
  "map (\<lambda>A. map (HS_product A) [I, X, Y, Z]) [I, X, Y, Z]
     = [[Some 1, Some 0, Some 0, Some 0],
        [Some 0, Some 1, Some 0, Some 0],
        [Some 0, Some 0, Some 1, Some 0],
        [Some 0, Some 0, Some 0, Some 1]]
   \<and> M = [[1 / 2, 1 / 2, 1 / 2, 1 / 2],
          [1 / 2, - 1 / 2, - 1 / 2, 1 / 2],
          [1 / 2, - \<i> / 2, \<i> / 2, 1 / 2],
          [1 / 2, \<i> / 2, - \<i> / 2, 1 / 2],
          [1, 0, 0, 0],
          [0, 0, 0, 1]]
   \<and> snd (execute_locally demo_sdk ''bell'' False)
       \<noteq> snd (execute_locally
                (demo_sdk\<lparr>get_counts := (\<lambda>r qc. Inr [(''00'', 512), (''11'', 512)])\<rparr>) ''bell'' False)"
proof -
  have gram: "map (\<lambda>A. map (HS_product A) [I, X, Y, Z]) [I, X, Y, Z]
     = [[Some 1, Some 0, Some 0, Some 0],
        [Some 0, Some 1, Some 0, Some 0],
        [Some 0, Some 0, Some 1, Some 0],
        [Some 0, Some 0, Some 0, Some 1]]"
    by (simp add: HS_product_def np_matmul_def matmul_def conj_T_def ncols_def dot_def np_trace_def
        upt_rec numeral_eq_Suc I_def X_def Y_def Z_def)
  have samples: "snd (execute_locally demo_sdk ''bell'' False)
       \<noteq> snd (execute_locally
                (demo_sdk\<lparr>get_counts := (\<lambda>r qc. Inr [(''00'', 512), (''11'', 512)])\<rparr>) ''bell'' False)"
    by (simp add: execute_locally_def simulate_def show_results_def demo_sdk_def demo_job_def Let_def)
  from gram M_rows samples show ?thesis by simp
qed

end
